theory Spec2Isabelle
  imports Complex_Main "HOL-Library.Signed_Division"
begin

section \<open>Data model\<close>

text \<open>
  JavaScript numbers are modelled as real numbers: the model covers the executions in
  which no intermediate value is infinite and rounding is ignored, so a statement about
  two values that differ by less than a rounding error says nothing about the doubles of
  the source. NaN is modelled where a well-typed input makes the source produce it, in the
  category statistics of the fitness evaluator (type \<open>number\<close> below). Exceptions
  thrown by the source are values of type \<open>error\<close>. Three more values mark where an
  execution leaves the model: \<open>NotANumber\<close> (a square root of a negative number, or
  a NaN that the source stores in a \<open>Metrics\<close> object and goes on with),
  \<open>IndexOutOfModel\<close> (an array written outside its bounds, which only a random value
  outside [0, 1) can cause) and \<open>NonTermination\<close> (a loop that never exits).
\<close>

datatype error =
    MetricOutOfRange string
  | CategorySumError
  | PositionNegative
  | DimensionsNotPositive
  | RotationInvalid
  | TypeError
  | NotANumber
  | IndexOutOfModel
  | NonTermination

text \<open>Sequencing of computations that may throw.\<close>

definition ebind :: "error + 'a \<Rightarrow> ('a \<Rightarrow> error + 'b) \<Rightarrow> error + 'b" where
  "ebind m f = (case m of Inl e \<Rightarrow> Inl e | Inr v \<Rightarrow> f v)"

text \<open>A JavaScript number that may be NaN. An arithmetic operation with a NaN operand
  gives NaN, and every comparison with a NaN operand is false.\<close>

datatype number = Num real | NaN

fun num1 :: "(real \<Rightarrow> real) \<Rightarrow> number \<Rightarrow> number" where
  "num1 f (Num x) = Num (f x)"
| "num1 f NaN = NaN"

fun num2 :: "(real \<Rightarrow> real \<Rightarrow> real) \<Rightarrow> number \<Rightarrow> number \<Rightarrow> number" where
  "num2 f (Num x) (Num y) = Num (f x y)"
| "num2 f NaN b = NaN"
| "num2 f (Num x) NaN = NaN"

fun cmp :: "(real \<Rightarrow> real \<Rightarrow> bool) \<Rightarrow> number \<Rightarrow> number \<Rightarrow> bool" where
  "cmp r (Num x) (Num y) = r x y"
| "cmp r NaN b = False"
| "cmp r (Num x) NaN = False"

text \<open>\<open>Math.sqrt\<close>: NaN below zero.\<close>

fun Math_sqrt :: "number \<Rightarrow> number" where
  "Math_sqrt (Num x) = (if x < 0 then NaN else Num (sqrt x))"
| "Math_sqrt NaN = NaN"

type_synonym CompatibilityMatrix = "string \<rightharpoonup> (string \<rightharpoonup> real)"

section \<open>Compatibility lookups\<close>

text \<open>\<open>PlantSpacingService.getCompatibilityScore\<close>: only the entry under (species1, species2).\<close>

definition PlantSpacingService_getCompatibilityScore ::
  "CompatibilityMatrix \<Rightarrow> string \<Rightarrow> string \<Rightarrow> real" where
  "PlantSpacingService_getCompatibilityScore matrix species1 species2 =
     (case matrix species1 of
        None \<Rightarrow> 0
      | Some species1Map \<Rightarrow> (case species1Map species2 of None \<Rightarrow> 0 | Some v \<Rightarrow> v))"

text \<open>\<open>GeneticAlgorithm.getCompatibilityScore\<close>: the same one-directional lookup.\<close>

definition GeneticAlgorithm_getCompatibilityScore ::
  "CompatibilityMatrix \<Rightarrow> string \<Rightarrow> string \<Rightarrow> real" where
  "GeneticAlgorithm_getCompatibilityScore matrix species1 species2 =
     (case matrix species1 of
        None \<Rightarrow> 0
      | Some species1Map \<Rightarrow> (case species1Map species2 of None \<Rightarrow> 0 | Some v \<Rightarrow> v))"

text \<open>The optional chaining \<open>matrix.get(a)?.get(b)\<close>.\<close>

definition get2 :: "CompatibilityMatrix \<Rightarrow> string \<Rightarrow> string \<Rightarrow> real option" where
  "get2 matrix a b = (case matrix a of None \<Rightarrow> None | Some row \<Rightarrow> row b)"

text \<open>\<open>FitnessCalculator.getCompatibilityScore\<close>: (species1, species2), then
  (species2, species1), then 0.\<close>

definition FitnessCalculator_getCompatibilityScore ::
  "CompatibilityMatrix \<Rightarrow> string \<Rightarrow> string \<Rightarrow> real" where
  "FitnessCalculator_getCompatibilityScore matrix species1 species2 =
     (case get2 matrix species1 species2 of
        Some score1 \<Rightarrow> score1
      | None \<Rightarrow> (case get2 matrix species2 species1 of
                   Some score2 \<Rightarrow> score2
                 | None \<Rightarrow> 0))"

text \<open>\<open>ValidationService.getCompatibilityScore\<close>.\<close>

definition ValidationService_getCompatibilityScore ::
  "CompatibilityMatrix \<Rightarrow> string \<Rightarrow> string \<Rightarrow> real" where
  "ValidationService_getCompatibilityScore matrix species1 species2 =
     (case get2 matrix species1 species2 of
        Some score1 \<Rightarrow> score1
      | None \<Rightarrow> (case get2 matrix species2 species1 of
                   Some score2 \<Rightarrow> score2
                 | None \<Rightarrow> 0))"

text \<open>\<open>PlantSelectorService.getCompatibility\<close>.\<close>

definition PlantSelectorService_getCompatibility ::
  "CompatibilityMatrix \<Rightarrow> string \<Rightarrow> string \<Rightarrow> real" where
  "PlantSelectorService_getCompatibility matrix species1 species2 =
     (case get2 matrix species1 species2 of
        Some score1 \<Rightarrow> score1
      | None \<Rightarrow> (case get2 matrix species2 species1 of
                   Some score2 \<Rightarrow> score2
                 | None \<Rightarrow> 0))"

text \<open>The lookup as specification section 4.1 words it: \<open>map[a][b]\<close> if present, else
  \<open>map[b][a]\<close> if present, else 0.\<close>

definition spec_lookup :: "CompatibilityMatrix \<Rightarrow> string \<Rightarrow> string \<Rightarrow> real" where
  "spec_lookup m a b =
     (if get2 m a b \<noteq> None then the (get2 m a b)
      else if get2 m b a \<noteq> None then the (get2 m b a)
      else 0)"

text \<open>A matrix holding the single directed entry (Cilantro, Tomate, 1).\<close>

definition oneWayMatrix :: CompatibilityMatrix where
  "oneWayMatrix = [''Cilantro'' \<mapsto> [''Tomate'' \<mapsto> 1]]"


section \<open>Entities and value objects\<close>

text \<open>\<open>Plant\<close>: a catalogue species. The fields \<open>id\<close>, \<open>type\<close> and \<open>size\<close> of the
  source are \<open>plant_id\<close>, \<open>plant_type\<close> and \<open>plant_size\<close>.\<close>

record Plant =
  plant_id :: int
  species :: string
  scientificName :: string
  plant_type :: "string list"
  sunRequirement :: string
  weeklyWatering :: real
  harvestDays :: real
  soilType :: string
  waterPerKg :: real
  benefits :: "string list"
  plant_size :: real

definition hasType :: "Plant \<Rightarrow> string \<Rightarrow> bool" where
  "hasType p t = (t \<in> set (plant_type p))"

definition estimatedCost :: "Plant \<Rightarrow> real" where
  "estimatedCost p = plant_size p * 50"

record Position =
  pos_x :: real
  pos_y :: real

definition Position_new :: "real \<Rightarrow> real \<Rightarrow> error + Position" where
  "Position_new x y =
     (if x < 0 \<or> y < 0 then Inl PositionNegative else Inr \<lparr>pos_x = x, pos_y = y\<rparr>)"

definition distanceTo :: "Position \<Rightarrow> Position \<Rightarrow> real" where
  "distanceTo a b = sqrt ((pos_x a - pos_x b)\<^sup>2 + (pos_y a - pos_y b)\<^sup>2)"

record Dimensions =
  dim_width :: real
  dim_height :: real

definition Dimensions_new :: "real \<Rightarrow> real \<Rightarrow> error + Dimensions" where
  "Dimensions_new w h =
     (if w \<le> 0 \<or> h \<le> 0 then Inl DimensionsNotPositive
      else Inr \<lparr>dim_width = w, dim_height = h\<rparr>)"

definition dim_totalArea :: "Dimensions \<Rightarrow> real" where
  "dim_totalArea d = dim_width d * dim_height d"

datatype Status = Pending | Planted | Growing | HarvestReady | Harvested

record PlantInstance =
  plant :: Plant
  position :: Position
  width :: real
  height :: real
  rotation :: int
  status :: Status

text \<open>The constructor of \<open>PlantInstance\<close>; width, height and rotation are optional.\<close>

definition PlantInstance_new ::
  "Plant \<Rightarrow> Position \<Rightarrow> real option \<Rightarrow> real option \<Rightarrow> int option \<Rightarrow> error + PlantInstance" where
  "PlantInstance_new p pos w h r =
     (let calculatedDimension = sqrt (plant_size p);
          rot = (case r of None \<Rightarrow> 0 | Some v \<Rightarrow> v)
      in if rot \<notin> {0, 90, 180, 270} then Inl RotationInvalid
         else Inr \<lparr>plant = p, position = pos,
                   width = (case w of None \<Rightarrow> calculatedDimension | Some v \<Rightarrow> v),
                   height = (case h of None \<Rightarrow> calculatedDimension | Some v \<Rightarrow> v),
                   rotation = rot, status = Pending\<rparr>)"

definition inst_totalArea :: "PlantInstance \<Rightarrow> real" where
  "inst_totalArea i = width i * height i"

definition inst_totalWeeklyWater :: "PlantInstance \<Rightarrow> real" where
  "inst_totalWeeklyWater i = weeklyWatering (plant i)"

definition inst_totalCost :: "PlantInstance \<Rightarrow> real" where
  "inst_totalCost i = estimatedCost (plant i)"

definition overlaps :: "PlantInstance \<Rightarrow> PlantInstance \<Rightarrow> bool" where
  "overlaps a b =
     (\<not> (pos_x (position a) + width a \<le> pos_x (position b)
         \<or> pos_x (position b) + width b \<le> pos_x (position a)
         \<or> pos_y (position a) + height a \<le> pos_y (position b)
         \<or> pos_y (position b) + height b \<le> pos_y (position a)))"

definition inst_distanceTo :: "PlantInstance \<Rightarrow> PlantInstance \<Rightarrow> real" where
  "inst_distanceTo a b = distanceTo (position a) (position b)"

record CategoryDistribution =
  vegetable :: number
  medicinal :: number
  ornamental :: number
  aromatic :: number

record CategoryDistributionData =
  d_vegetable :: "number option"
  d_medicinal :: "number option"
  d_ornamental :: "number option"
  d_aromatic :: "number option"

text \<open>\<open>data.vegetable ?? 0\<close>: only a missing value is replaced.\<close>

definition orZero :: "number option \<Rightarrow> number" where
  "orZero v = (case v of None \<Rightarrow> Num 0 | Some r \<Rightarrow> r)"

text \<open>The constructor of \<open>CategoryDistribution\<close>: missing categories are 0 and the four
  percentages must sum to 100 (within 0.01). Called without an argument, the data is the
  empty object. When the sum is NaN the comparison is false and nothing is thrown.\<close>

definition CategoryDistribution_new :: "CategoryDistributionData \<Rightarrow> error + CategoryDistribution" where
  "CategoryDistribution_new d =
     (let v = orZero (d_vegetable d); m = orZero (d_medicinal d);
          orn = orZero (d_ornamental d); a = orZero (d_aromatic d);
          total = num2 (+) (num2 (+) (num2 (+) v m) orn) a
      in if cmp (\<lambda>x y. x > y) (num1 abs (num2 (-) total (Num 100))) (Num 0.01)
         then Inl CategorySumError
         else Inr \<lparr>vegetable = v, medicinal = m, ornamental = orn, aromatic = a\<rparr>)"

definition emptyData :: CategoryDistributionData where
  "emptyData = \<lparr>d_vegetable = None, d_medicinal = None, d_ornamental = None, d_aromatic = None\<rparr>"

record Weights =
  wCEE :: real
  wPSRNT :: real
  wEH :: real
  wUE :: real
  wCS :: real
  wBSN :: real

record Metrics =
  CEE :: real
  PSRNT :: real
  EH :: real
  UE :: real
  fitness :: real

text \<open>\<open>Metrics.validateMetric\<close>: throws when \<open>value < 0 || value > 1\<close>. Both
  comparisons are false for NaN, which is returned like a value in range.\<close>

definition validateMetric :: "number \<Rightarrow> string \<Rightarrow> error + number" where
  "validateMetric v name =
     (if cmp (\<lambda>x y. x < y) v (Num 0) \<or> cmp (\<lambda>x y. x > y) v (Num 1)
      then Inl (MetricOutOfRange name) else Inr v)"

text \<open>\<open>Metrics.calculateFitness\<close>: only four of the six weights are read.\<close>

definition calculateFitness :: "Weights \<Rightarrow> real \<Rightarrow> real \<Rightarrow> real \<Rightarrow> real \<Rightarrow> real" where
  "calculateFitness w cee psrnt eh ue =
     wCEE w * cee + wPSRNT w * psrnt + wEH w * eh + wUE w * ue"

text \<open>The constructor of \<open>Metrics\<close>: validates the four sub-scores in the order CEE, PSRNT,
  EH, UE, then stores them and the weighted fitness. The record \<open>Metrics\<close> holds reals.
  When a validated sub-score is NaN the source stores it, and a NaN fitness with it,
  without throwing; that object is outside the record, and the result here is
  \<open>NotANumber\<close>.\<close>

fun storeMetrics :: "number \<Rightarrow> number \<Rightarrow> number \<Rightarrow> number \<Rightarrow> Weights \<Rightarrow> error + Metrics" where
  "storeMetrics (Num c) (Num p) (Num h) (Num u) w =
     Inr \<lparr>CEE = c, PSRNT = p, EH = h, UE = u, fitness = calculateFitness w c p h u\<rparr>"
| "storeMetrics NaN p h u w = Inl NotANumber"
| "storeMetrics (Num c) NaN h u w = Inl NotANumber"
| "storeMetrics (Num c) (Num p) NaN u w = Inl NotANumber"
| "storeMetrics (Num c) (Num p) (Num h) NaN w = Inl NotANumber"

definition Metrics_new :: "number \<Rightarrow> number \<Rightarrow> number \<Rightarrow> number \<Rightarrow> Weights \<Rightarrow> error + Metrics" where
  "Metrics_new cee psrnt eh ue w =
     ebind (validateMetric cee ''CEE'') (\<lambda>c.
     ebind (validateMetric psrnt ''PSRNT'') (\<lambda>p.
     ebind (validateMetric eh ''EH'') (\<lambda>h.
     ebind (validateMetric ue ''UE'') (\<lambda>u.
       storeMetrics c p h u w))))"

record Individual =
  dimensions :: Dimensions
  genome :: "int option list list"
  plants :: "PlantInstance list"
  metrics :: "Metrics option"

definition ind_fitness :: "Individual \<Rightarrow> real" where
  "ind_fitness i = (case metrics i of None \<Rightarrow> 0 | Some m \<Rightarrow> fitness m)"

definition totalPlants :: "Individual \<Rightarrow> nat" where
  "totalPlants i = length (plants i)"

definition usedArea :: "Individual \<Rightarrow> real" where
  "usedArea i = foldl (\<lambda>sum p. sum + inst_totalArea p) 0 (plants i)"

definition totalWeeklyWater :: "Individual \<Rightarrow> real" where
  "totalWeeklyWater i = foldl (\<lambda>sum p. sum + inst_totalWeeklyWater p) 0 (plants i)"

definition totalCost :: "Individual \<Rightarrow> real" where
  "totalCost i = foldl (\<lambda>sum p. sum + inst_totalCost p) 0 (plants i)"

text \<open>\<open>Individual.clone\<close>: a new individual with a copy of the instance list and the same
  metrics. Values are immutable here, so the copy is the value itself.\<close>

definition clone :: "Individual \<Rightarrow> Individual" where
  "clone i = \<lparr>dimensions = dimensions i, genome = genome i, plants = plants i, metrics = metrics i\<rparr>"

section \<open>Fitness evaluator\<close>

datatype Objective = Alimenticio | Medicinal | Sostenible | Ornamental

fun OBJECTIVE_WEIGHTS :: "Objective \<Rightarrow> Weights" where
  "OBJECTIVE_WEIGHTS Alimenticio =
     \<lparr>wCEE = 0.15, wPSRNT = 0.40, wEH = 0.15, wUE = 0.10, wCS = 0.10, wBSN = 0.10\<rparr>"
| "OBJECTIVE_WEIGHTS Medicinal =
     \<lparr>wCEE = 0.20, wPSRNT = 0.35, wEH = 0.10, wUE = 0.10, wCS = 0.10, wBSN = 0.15\<rparr>"
| "OBJECTIVE_WEIGHTS Sostenible =
     \<lparr>wCEE = 0.20, wPSRNT = 0.15, wEH = 0.30, wUE = 0.10, wCS = 0.10, wBSN = 0.15\<rparr>"
| "OBJECTIVE_WEIGHTS Ornamental =
     \<lparr>wCEE = 0.15, wPSRNT = 0.30, wEH = 0.10, wUE = 0.20, wCS = 0.10, wBSN = 0.15\<rparr>"

record FitnessConfig =
  compatibilityMatrix :: CompatibilityMatrix
  objective :: Objective
  desiredCategoryDistribution :: "CategoryDistribution option"
  maxWaterWeekly :: real

text \<open>One step of the inner loop of \<open>calculateCEE\<close>: the pair (plant1, plant2) adds to
  \<open>(totalScore, totalWeight)\<close>.\<close>

definition cee_pair ::
  "CompatibilityMatrix \<Rightarrow> PlantInstance \<Rightarrow> PlantInstance \<Rightarrow> real \<times> real \<Rightarrow> real \<times> real" where
  "cee_pair m plant1 plant2 acc =
     (let distance = distanceTo (position plant1) (position plant2);
          weight = exp (- distance / 2);
          compatibility =
            FitnessCalculator_getCompatibilityScore m (species (plant plant1)) (species (plant plant2));
          totalScore =
            (if compatibility < - 0.5 \<and> distance < 1.5 then fst acc + compatibility * weight * 2
             else if compatibility > 0.5 \<and> distance < 1.0 then fst acc + compatibility * weight * 1.5
             else fst acc + compatibility * weight)
      in (totalScore, snd acc + weight))"

text \<open>The double loop over \<open>i < j\<close>.\<close>

fun cee_loop :: "CompatibilityMatrix \<Rightarrow> PlantInstance list \<Rightarrow> real \<times> real \<Rightarrow> real \<times> real" where
  "cee_loop m [] acc = acc"
| "cee_loop m (p # ps) acc = cee_loop m ps (foldl (\<lambda>a q. cee_pair m p q a) acc ps)"

definition calculateCEE :: "FitnessConfig \<Rightarrow> Individual \<Rightarrow> real" where
  "calculateCEE cfg ind =
     (if length (plants ind) < 2 then 1.0
      else let (totalScore, totalWeight) = cee_loop (compatibilityMatrix cfg) (plants ind) (0, 0)
           in if totalWeight = 0 then 1.0
              else let averageScore = totalScore / totalWeight
                   in max 0 (min 1 ((averageScore + 1) / 2)))"

text \<open>The object \<open>counts\<close> of \<open>calculateCategoryDistribution\<close>: its four numeric
  properties, and whether it has got an own property that holds a string.\<close>

record Counts =
  c_vegetable :: real
  c_medicinal :: real
  c_aromatic :: real
  c_ornamental :: real
  c_text :: bool

text \<open>The names of the function-valued properties that an object literal inherits from
  \<open>Object.prototype\<close>.\<close>

definition inheritedFunctions :: "string list" where
  "inheritedFunctions =
     [''constructor'', ''hasOwnProperty'', ''isPrototypeOf'', ''propertyIsEnumerable'',
      ''toLocaleString'', ''toString'', ''valueOf'', ''__defineGetter__'', ''__defineSetter__'',
      ''__lookupGetter__'', ''__lookupSetter__'']"

text \<open>\<open>if (type in counts) counts[type] += 1\<close>. The operator \<open>in\<close> also finds inherited
  properties. For an inherited function the sum is the function's text followed by 1, and
  the assignment makes it an own property of \<open>counts\<close>. For \<open>__proto__\<close> the sum is a
  string too, which the setter ignores. Any other tag is not in \<open>counts\<close>.\<close>

definition countType :: "Counts \<Rightarrow> string \<Rightarrow> Counts" where
  "countType c t =
     (if t = ''vegetable'' then c\<lparr>c_vegetable := c_vegetable c + 1\<rparr>
      else if t = ''medicinal'' then c\<lparr>c_medicinal := c_medicinal c + 1\<rparr>
      else if t = ''aromatic'' then c\<lparr>c_aromatic := c_aromatic c + 1\<rparr>
      else if t = ''ornamental'' then c\<lparr>c_ornamental := c_ornamental c + 1\<rparr>
      else if t \<in> set inheritedFunctions then c\<lparr>c_text := True\<rparr>
      else c)"

definition countPlants :: "PlantInstance list \<Rightarrow> Counts" where
  "countPlants ps =
     foldl (\<lambda>c inst. foldl countType c (plant_type (plant inst)))
       \<lparr>c_vegetable = 0, c_medicinal = 0, c_aromatic = 0, c_ornamental = 0, c_text = False\<rparr> ps"

definition someData :: "number \<Rightarrow> number \<Rightarrow> number \<Rightarrow> number \<Rightarrow> CategoryDistributionData" where
  "someData v m a orn =
     \<lparr>d_vegetable = Some v, d_medicinal = Some m, d_ornamental = Some orn, d_aromatic = Some a\<rparr>"

text \<open>\<open>Object.values(counts).reduce((sum, count) => sum + count, 0)\<close>: the sum of the four
  counts, or, once \<open>counts\<close> holds a string, a string that is no numeral. Such a
  \<open>total\<close> is not \<open>=== 0\<close> and is NaN in every division, which is all the source does
  with it.\<close>

definition countsTotal :: "Counts \<Rightarrow> number" where
  "countsTotal counts =
     (if c_text counts then NaN
      else Num (c_vegetable counts + c_medicinal counts + c_aromatic counts + c_ornamental counts))"

definition calculateCategoryDistribution :: "Individual \<Rightarrow> error + CategoryDistribution" where
  "calculateCategoryDistribution ind =
     (let counts = countPlants (plants ind);
          total = countsTotal counts
      in if total = Num 0
         then CategoryDistribution_new (someData (Num 25) (Num 25) (Num 25) (Num 25))
         else CategoryDistribution_new
                (someData (num2 (*) (num2 (/) (Num (c_vegetable counts)) total) (Num 100))
                   (num2 (*) (num2 (/) (Num (c_medicinal counts)) total) (Num 100))
                   (num2 (*) (num2 (/) (Num (c_aromatic counts)) total) (Num 100))
                   (num2 (*) (num2 (/) (Num (c_ornamental counts)) total) (Num 100))))"

definition calculateDiversityBonus :: "Individual \<Rightarrow> error + number" where
  "calculateDiversityBonus ind =
     (case calculateCategoryDistribution ind of
        Inl e \<Rightarrow> Inl e
      | Inr distr \<Rightarrow>
          let vals = [vegetable distr, medicinal distr, aromatic distr, ornamental distr];
              entropy =
                foldl (\<lambda>sum v. let p = num2 (/) v (Num 100)
                                in num2 (-) sum (num2 (*) p (num1 (log 2) p)))
                  (Num 0) (filter (\<lambda>v. cmp (\<lambda>x y. x > y) v (Num 0)) vals);
              maxEntropy = Num (log 2 4)
          in Inr (num2 (/) entropy maxEntropy))"

definition calculatePSRNT :: "FitnessConfig \<Rightarrow> Individual \<Rightarrow> error + number" where
  "calculatePSRNT cfg ind =
     (case desiredCategoryDistribution cfg of
        None \<Rightarrow> calculateDiversityBonus ind
      | Some desired \<Rightarrow>
          (case calculateCategoryDistribution ind of
             Inl e \<Rightarrow> Inl e
           | Inr actual \<Rightarrow>
               let errors = [num1 (\<lambda>x. x\<^sup>2) (num2 (-) (vegetable actual) (vegetable desired)),
                             num1 (\<lambda>x. x\<^sup>2) (num2 (-) (medicinal actual) (medicinal desired)),
                             num1 (\<lambda>x. x\<^sup>2) (num2 (-) (aromatic actual) (aromatic desired)),
                             num1 (\<lambda>x. x\<^sup>2) (num2 (-) (ornamental actual) (ornamental desired))];
                   mse = num2 (/) (foldl (\<lambda>sum e. num2 (+) sum e) (Num 0) errors) (Num 4)
               in Inr (num2 max (Num 0) (num2 (-) (Num 1) (num2 (/) (Math_sqrt mse) (Num 100))))))"

text \<open>The curve of \<open>calculateEH\<close> on the usage ratio, in exact arithmetic.\<close>

definition EH_curve :: "real \<Rightarrow> real" where
  "EH_curve usage =
     (if usage > 1.0 then max 0 (1 - (usage - 1.0) * 2)
      else if usage \<ge> 0.8 \<and> usage \<le> 0.95 then 1.0
      else if usage < 0.8 then usage / 0.8
      else 1 - (usage - 0.95) * 2)"

definition calculateEH :: "FitnessConfig \<Rightarrow> Individual \<Rightarrow> real" where
  "calculateEH cfg ind =
     (let waterUsed = totalWeeklyWater ind; waterMax = maxWaterWeekly cfg
      in if waterMax = 0 then 1.0 else EH_curve (waterUsed / waterMax))"

definition calculateUE :: "Individual \<Rightarrow> real" where
  "calculateUE ind =
     (let used = usedArea ind; totalArea = dim_totalArea (dimensions ind)
      in if totalArea = 0 then 0
         else let usage = used / totalArea
              in if usage \<ge> 0.7 \<and> usage \<le> 0.85 then 1.0
                 else if usage < 0.7 then usage / 0.7
                 else max 0 (1 - (usage - 0.85) * 3))"



text \<open>\<open>FitnessCalculator.calculate\<close>.\<close>

definition calculate :: "FitnessConfig \<Rightarrow> Individual \<Rightarrow> error + Metrics" where
  "calculate cfg ind =
     (let cee = Num (calculateCEE cfg ind) in
      case calculatePSRNT cfg ind of
        Inl e \<Rightarrow> Inl e
      | Inr psrnt \<Rightarrow>
          let eh = Num (calculateEH cfg ind);
              ue = Num (calculateUE ind);
              weights = OBJECTIVE_WEIGHTS (objective cfg)
          in Metrics_new cee psrnt eh ue weights)"


definition appliedWeightTotal :: "Weights \<Rightarrow> real" where
  "appliedWeightTotal w = wCEE w + wPSRNT w + wEH w + wUE w"

section \<open>Plant selector\<close>

record PlantSelectionConfig =
  sel_desiredPlantIds :: "int list option"
  sel_maxSpecies :: int
  sel_objective :: Objective
  sel_season :: "string option"
  sel_compatibilityMatrix :: CompatibilityMatrix

text \<open>\<open>PlantScore\<close>; the list of reasons, which nothing reads, is left out.\<close>

record PlantScore =
  ps_plant :: Plant
  ps_score :: real

definition filterByUserPreferences :: "PlantSelectionConfig \<Rightarrow> Plant list \<Rightarrow> Plant list" where
  "filterByUserPreferences cfg ps =
     (case sel_desiredPlantIds cfg of
        None \<Rightarrow> ps
      | Some ids \<Rightarrow> if length ids = 0 then ps else filter (\<lambda>q. plant_id q \<in> set ids) ps)"

definition filterBySeason :: "PlantSelectionConfig \<Rightarrow> Plant list \<Rightarrow> Plant list" where
  "filterBySeason cfg ps =
     (if sel_season cfg = None \<or> sel_season cfg = Some ''auto'' then ps else ps)"

definition scoreByObjective :: "PlantSelectionConfig \<Rightarrow> Plant \<Rightarrow> real" where
  "scoreByObjective cfg q =
     (case sel_objective cfg of
        Alimenticio \<Rightarrow> if hasType q ''vegetable'' then 1.0 else 0.3
      | Medicinal \<Rightarrow> if hasType q ''medicinal'' then 1.0
                     else if hasType q ''aromatic'' then 0.6 else 0.2
      | Sostenible \<Rightarrow> max 0 (1 - weeklyWatering q / 100)
      | Ornamental \<Rightarrow> if hasType q ''ornamental'' then 1.0
                      else if hasType q ''aromatic'' then 0.5 else 0.2)"

text \<open>The loop of \<open>scoreByCompatibility\<close> over the other candidates: the accumulator is
  \<open>(totalCompatibility, count)\<close>.\<close>

definition compat_step ::
  "PlantSelectionConfig \<Rightarrow> Plant \<Rightarrow> real \<times> nat \<Rightarrow> Plant \<Rightarrow> real \<times> nat" where
  "compat_step cfg q acc other =
     (if species other = species q then acc
      else (fst acc + PlantSelectorService_getCompatibility (sel_compatibilityMatrix cfg)
                        (species q) (species other),
            Suc (snd acc)))"

definition scoreByCompatibility :: "PlantSelectionConfig \<Rightarrow> Plant \<Rightarrow> Plant list \<Rightarrow> real" where
  "scoreByCompatibility cfg q others =
     (if length others \<le> 1 then 1.0
      else let (totalCompatibility, count) = foldl (compat_step cfg q) (0, 0) others
           in if count = 0 then 1.0
              else let avgCompat = totalCompatibility / real count in (avgCompat + 1) / 2)"

definition scoreByResourceEfficiency :: "Plant \<Rightarrow> real" where
  "scoreByResourceEfficiency q =
     (let sizeScore = max 0 (1 - plant_size q / 2);
          waterScore = max 0 (1 - weeklyWatering q / 100)
      in (sizeScore + waterScore) / 2)"

definition scoreByNutritionalDiversity :: "Plant \<Rightarrow> real" where
  "scoreByNutritionalDiversity q = min 1 (real (length (plant_type q)) / 3)"

definition scorePlant :: "PlantSelectionConfig \<Rightarrow> Plant list \<Rightarrow> Plant \<Rightarrow> PlantScore" where
  "scorePlant cfg context q =
     \<lparr>ps_plant = q,
      ps_score = 0 + scoreByObjective cfg q * 0.3 + scoreByCompatibility cfg q context * 0.4
                   + scoreByResourceEfficiency q * 0.2 + scoreByNutritionalDiversity q * 0.1\<rparr>"

definition checkCompatibilityWithSelected :: "PlantSelectionConfig \<Rightarrow> Plant \<Rightarrow> Plant list \<Rightarrow> bool" where
  "checkCompatibilityWithSelected cfg q selected =
     (if length selected = 0 then True
      else let negativeCount =
                 foldl (\<lambda>n other.
                          if PlantSelectorService_getCompatibility (sel_compatibilityMatrix cfg)
                               (species q) (species other) < - 0.3
                          then Suc n else n) (0::nat) selected
           in negativeCount \<le> 1)"

text \<open>The first loop of \<open>greedySelection\<close>; \<open>break\<close> ends it.\<close>

fun greedy_pick :: "PlantSelectionConfig \<Rightarrow> PlantScore list \<Rightarrow> Plant list \<Rightarrow> Plant list" where
  "greedy_pick cfg [] selected = selected"
| "greedy_pick cfg (candidate # rest) selected =
     (if int (length selected) \<ge> sel_maxSpecies cfg then selected
      else if checkCompatibilityWithSelected cfg (ps_plant candidate) selected
           then greedy_pick cfg rest (selected @ [ps_plant candidate])
           else greedy_pick cfg rest selected)"

text \<open>The second loop: fill by score order. \<open>includes\<close> compares object identity; catalogue
  rows are distinct objects with distinct contents, so equality of values stands for it.\<close>

fun greedy_fill :: "PlantSelectionConfig \<Rightarrow> PlantScore list \<Rightarrow> Plant list \<Rightarrow> Plant list" where
  "greedy_fill cfg [] selected = selected"
| "greedy_fill cfg (candidate # rest) selected =
     (if int (length selected) \<ge> sel_maxSpecies cfg then selected
      else if ps_plant candidate \<notin> set selected
           then greedy_fill cfg rest (selected @ [ps_plant candidate])
           else greedy_fill cfg rest selected)"

definition greedySelection :: "PlantSelectionConfig \<Rightarrow> PlantScore list \<Rightarrow> Plant list" where
  "greedySelection cfg scored =
     (let selected = greedy_pick cfg scored []
      in if int (length selected) < sel_maxSpecies cfg then greedy_fill cfg scored selected
         else selected)"

text \<open>\<open>scored.sort((a, b) => b.score - a.score)\<close>: a stable sort, descending by score.\<close>

definition sortByScore :: "PlantScore list \<Rightarrow> PlantScore list" where
  "sortByScore scored = sort_key (\<lambda>a. - ps_score a) scored"

definition selectBestPlants :: "PlantSelectionConfig \<Rightarrow> Plant list \<Rightarrow> Plant list" where
  "selectBestPlants cfg allPlants =
     (let candidates0 = filterBySeason cfg (filterByUserPreferences cfg allPlants);
          candidates = (if int (length candidates0) < sel_maxSpecies cfg then allPlants
                        else candidates0);
          scored = map (scorePlant cfg candidates) candidates
      in greedySelection cfg (sortByScore scored))"

section \<open>Genetic algorithm\<close>

record GAConfig =
  populationSize :: int
  maxGenerations :: int
  crossoverProbability :: real
  mutationRate :: real
  insertionRate :: real
  deletionRate :: real
  tournamentK :: int
  eliteCount :: int
  patience :: int
  convergenceThreshold :: real
  timeout :: "real option"
  seed :: "int option"
  maxSpecies :: int

record GAConstraints =
  maxArea :: real
  gc_maxWaterWeekly :: real
  maxBudget :: "real option"
  gc_desiredCategoryDistribution :: "CategoryDistribution option"
  desiredPlantIds :: "int list option"

text \<open>The integer that a double holds after an integer result is rounded to it. Up to
  \<open>2^53\<close> in absolute value every integer is a double. A larger one keeps its 53 leading
  bits, rounded to nearest with ties to the even neighbour. Overflow to infinity (beyond
  about \<open>1.8e308\<close>) is outside the model.\<close>

fun bitLength :: "nat \<Rightarrow> nat" where
  "bitLength n = (if n = 0 then 0 else Suc (bitLength (n div 2)))"

declare bitLength.simps [simp del]

definition toDouble :: "int \<Rightarrow> int" where
  "toDouble n =
     (if \<bar>n\<bar> \<le> 2 ^ 53 then n
      else let e = bitLength (nat \<bar>n\<bar>) - 53;
               q = \<bar>n\<bar> div 2 ^ e;
               r = \<bar>n\<bar> mod 2 ^ e;
               q' = (if 2 * r > 2 ^ e \<or> (2 * r = 2 ^ e \<and> odd q) then q + 1 else q)
           in sgn n * q' * 2 ^ e)"

text \<open>\<open>seededRandom\<close>: the state after \<open>n\<close> calls. The seed is an integer. The
  product and the sum of \<open>state * 9301 + 49297\<close> are each rounded to a double; \<open>%\<close> is
  exact on doubles and is the remainder that takes the sign of the dividend.\<close>

fun lcg_state :: "int \<Rightarrow> nat \<Rightarrow> int" where
  "lcg_state s 0 = s"
| "lcg_state s (Suc n) = toDouble (toDouble (lcg_state s n * 9301) + 49297) smod 233280"

text \<open>The value the call number \<open>n\<close> (from 0) returns.\<close>

definition seededRandom :: "int \<Rightarrow> nat \<Rightarrow> real" where
  "seededRandom s n = real_of_int (lcg_state s (Suc n)) / 233280"

text \<open>The fields of a \<open>GeneticAlgorithm\<close> object. \<open>rng\<close> is the sequence of values the
  generator returns, call by call; every function below that draws from it takes the number
  of calls made so far and returns the new number.\<close>

record GeneticAlgorithm =
  config :: GAConfig
  allPlants :: "Plant list"
  fitnessCalculator :: FitnessConfig
  rng :: "nat \<Rightarrow> real"
  selectedPlants :: "Plant list"

text \<open>The constructor; \<open>mathRandom\<close> is the sequence \<open>Math.random\<close> would return.\<close>

definition GeneticAlgorithm_new ::
  "(nat \<Rightarrow> real) \<Rightarrow> Plant list \<Rightarrow> FitnessConfig \<Rightarrow> GAConfig \<Rightarrow> GeneticAlgorithm" where
  "GeneticAlgorithm_new mathRandom ps fc cfg =
     \<lparr>config = cfg, allPlants = ps, fitnessCalculator = fc,
      rng = (case seed cfg of Some s \<Rightarrow> seededRandom s | None \<Rightarrow> mathRandom),
      selectedPlants = []\<rparr>"

text \<open>\<open>GeneticAlgorithm.hasAdequateSpacing\<close>.\<close>

definition GA_minDistance :: "real \<Rightarrow> real" where
  "GA_minDistance compatibility =
     (if compatibility < - 0.5 then 2.0 else if compatibility > 0.5 then 0.8 else 1.2)"

definition hasAdequateSpacing :: "GeneticAlgorithm \<Rightarrow> PlantInstance \<Rightarrow> PlantInstance \<Rightarrow> bool" where
  "hasAdequateSpacing ga plant1 plant2 =
     (let distance = inst_distanceTo plant1 plant2;
          compatibility = GeneticAlgorithm_getCompatibilityScore
                            (compatibilityMatrix (fitnessCalculator ga))
                            (species (plant plant1)) (species (plant plant2));
          minDistance = GA_minDistance compatibility;
          radius1 = sqrt (plant_size (plant plant1)) / 2;
          radius2 = sqrt (plant_size (plant plant2)) / 2
      in distance \<ge> minDistance + radius1 + radius2)"


text \<open>The constructor call \<open>new Individual(dimensions, [], plants)\<close>.\<close>

definition Individual_new :: "Dimensions \<Rightarrow> PlantInstance list \<Rightarrow> Individual" where
  "Individual_new d ps = \<lparr>dimensions = d, genome = [], plants = ps, metrics = None\<rparr>"

text \<open>The loop of \<open>uniformCrossover\<close>: \<open>i\<close> is the index, the next argument the number of
  iterations left, then the two child lists built so far.\<close>

fun crossover_loop ::
  "(nat \<Rightarrow> real) \<Rightarrow> PlantInstance list \<Rightarrow> PlantInstance list \<Rightarrow> nat \<Rightarrow> nat \<Rightarrow>
   PlantInstance list \<times> PlantInstance list \<Rightarrow> nat \<Rightarrow> (PlantInstance list \<times> PlantInstance list) \<times> nat" where
  "crossover_loop R p1 p2 i 0 acc c = (acc, c)"
| "crossover_loop R p1 p2 i (Suc k) acc c =
     (if R c < 0.5
      then crossover_loop R p1 p2 (Suc i) k
             (fst acc @ (if i < length p1 then [p1 ! i] else []),
              snd acc @ (if i < length p2 then [p2 ! i] else [])) (Suc c)
      else crossover_loop R p1 p2 (Suc i) k
             (fst acc @ (if i < length p2 then [p2 ! i] else []),
              snd acc @ (if i < length p1 then [p1 ! i] else [])) (Suc c))"

definition uniformCrossover ::
  "GeneticAlgorithm \<Rightarrow> Individual \<Rightarrow> Individual \<Rightarrow> nat \<Rightarrow> (Individual \<times> Individual) \<times> nat" where
  "uniformCrossover ga parent1 parent2 c =
     (if length (plants parent1) = 0 \<or> length (plants parent2) = 0
      then ((clone parent1, clone parent2), c)
      else let maxLen = max (length (plants parent1)) (length (plants parent2));
               (children, c') = crossover_loop (rng ga) (plants parent1) (plants parent2) 0 maxLen ([], []) c
           in ((Individual_new (dimensions parent1) (fst children),
                Individual_new (dimensions parent2) (snd children)), c'))"

text \<open>\<open>xs.slice(0, n)\<close> for an integer \<open>n\<close>: a negative \<open>n\<close> counts from the end.\<close>

definition slice0 :: "int \<Rightarrow> 'a list \<Rightarrow> 'a list" where
  "slice0 n xs = (if n < 0 then take (nat (int (length xs) + n)) xs else take (nat n) xs)"

text \<open>\<open>sort((a, b) => b.fitness - a.fitness)\<close>: a stable sort, descending by fitness.\<close>

definition sortByFitness :: "Individual list \<Rightarrow> Individual list" where
  "sortByFitness pop = sort_key (\<lambda>a. - ind_fitness a) pop"

definition elitistReplacement :: "GeneticAlgorithm \<Rightarrow> Individual list \<Rightarrow> Individual list \<Rightarrow> Individual list" where
  "elitistReplacement ga parents offspring =
     (let combined = parents @ offspring
      in slice0 (populationSize (config ga)) (sortByFitness combined))"

text \<open>\<open>Math.max(...population.map(ind => ind.fitness))\<close>; \<open>None\<close> is the \<open>-Infinity\<close> of an
  empty population.\<close>

definition maxFitness :: "Individual list \<Rightarrow> real option" where
  "maxFitness pop =
     (case pop of [] \<Rightarrow> None | a # rest \<Rightarrow> Some (foldl max (ind_fitness a) (map ind_fitness rest)))"

subsection \<open>Initialization\<close>

text \<open>The running totals of \<open>createSmartIndividual\<close>.\<close>

record Placement =
  plantInstances :: "PlantInstance list"
  p_usedArea :: real
  p_usedWater :: real
  p_usedBudget :: real

text \<open>\<open>!constraints.maxBudget || usedBudget + plantCost <= constraints.maxBudget\<close>.\<close>

definition withinBudget :: "GAConstraints \<Rightarrow> real \<Rightarrow> bool" where
  "withinBudget cons cost =
     (case maxBudget cons of None \<Rightarrow> True | Some b \<Rightarrow> if b = 0 then True else cost \<le> b)"

text \<open>\<open>plantInstances.some(existing => tempInstance.overlaps(existing) ||
  !this.hasAdequateSpacing(tempInstance, existing))\<close>.\<close>

definition hasCollision :: "GeneticAlgorithm \<Rightarrow> PlantInstance \<Rightarrow> PlantInstance list \<Rightarrow> bool" where
  "hasCollision ga inst existing =
     list_ex (\<lambda>e. overlaps inst e \<or> \<not> hasAdequateSpacing ga inst e) existing"

text \<open>The rejection-sampling loop of \<open>createSmartIndividual\<close> for one instance of the species
  \<open>p\<close> on a plot \<open>w\<close> by \<open>h\<close>; the natural number is the number of attempts left.\<close>

fun place_attempts ::
  "GeneticAlgorithm \<Rightarrow> GAConstraints \<Rightarrow> real \<Rightarrow> real \<Rightarrow> Plant \<Rightarrow> nat \<Rightarrow> Placement \<Rightarrow> nat
   \<Rightarrow> error + (Placement \<times> nat)" where
  "place_attempts ga cons w h p 0 acc c = Inr (acc, c)"
| "place_attempts ga cons w h p (Suc k) acc c =
     (let margin = sqrt (plant_size p);
          x = margin + rng ga c * (w - 2 * margin);
          y = margin + rng ga (Suc c) * (h - 2 * margin)
      in ebind (Position_new x y) (\<lambda>pos.
         ebind (PlantInstance_new p pos None None None) (\<lambda>tempInstance.
           let withinBounds = (x + width tempInstance \<le> w \<and> y + height tempInstance \<le> h
                               \<and> x \<ge> 0 \<and> y \<ge> 0);
               plantArea = inst_totalArea tempInstance;
               plantWater = inst_totalWeeklyWater tempInstance;
               plantCost = inst_totalCost tempInstance;
               withinConstraints =
                 (p_usedArea acc + plantArea \<le> maxArea cons * 0.85
                  \<and> p_usedWater acc + plantWater \<le> gc_maxWaterWeekly cons
                  \<and> withinBudget cons (p_usedBudget acc + plantCost))
           in if \<not> hasCollision ga tempInstance (plantInstances acc) \<and> withinBounds \<and> withinConstraints
              then Inr (\<lparr>plantInstances = plantInstances acc @ [tempInstance],
                         p_usedArea = p_usedArea acc + plantArea,
                         p_usedWater = p_usedWater acc + plantWater,
                         p_usedBudget = p_usedBudget acc + plantCost\<rparr>, Suc (Suc c))
              else place_attempts ga cons w h p k acc (Suc (Suc c)))))"

text \<open>The loop over the instances of one species.\<close>

fun init_instances ::
  "GeneticAlgorithm \<Rightarrow> GAConstraints \<Rightarrow> real \<Rightarrow> real \<Rightarrow> Plant \<Rightarrow> nat \<Rightarrow> Placement \<Rightarrow> nat
   \<Rightarrow> error + (Placement \<times> nat)" where
  "init_instances ga cons w h p 0 acc c = Inr (acc, c)"
| "init_instances ga cons w h p (Suc n) acc c =
     ebind (place_attempts ga cons w h p 50 acc c)
       (\<lambda>r. init_instances ga cons w h p n (fst r) (snd r))"

text \<open>The loop over the chosen species: each gets one or two instances.\<close>

fun init_plants ::
  "GeneticAlgorithm \<Rightarrow> GAConstraints \<Rightarrow> real \<Rightarrow> real \<Rightarrow> Plant list \<Rightarrow> Placement \<Rightarrow> nat
   \<Rightarrow> error + (Placement \<times> nat)" where
  "init_plants ga cons w h [] acc c = Inr (acc, c)"
| "init_plants ga cons w h (p # ps) acc c =
     (let plantsOfThisSpecies = 1 + \<lfloor>rng ga c * 2\<rfloor>
      in ebind (init_instances ga cons w h p (nat plantsOfThisSpecies) acc (Suc c))
           (\<lambda>r. init_plants ga cons w h ps (fst r) (snd r)))"

text \<open>\<open>shuffleArray\<close> (Fisher-Yates), from index \<open>i\<close> down to 1.\<close>

fun shuffle_loop :: "(nat \<Rightarrow> real) \<Rightarrow> 'a list \<Rightarrow> nat \<Rightarrow> nat \<Rightarrow> error + ('a list \<times> nat)" where
  "shuffle_loop R xs 0 c = Inr (xs, c)"
| "shuffle_loop R xs (Suc i) c =
     (let j = \<lfloor>R c * (real (Suc i) + 1)\<rfloor>
      in if 0 \<le> j \<and> j < int (length xs)
         then shuffle_loop R (xs[Suc i := xs ! nat j, nat j := xs ! Suc i]) i (Suc c)
         else Inl IndexOutOfModel)"

definition shuffleArray :: "(nat \<Rightarrow> real) \<Rightarrow> 'a list \<Rightarrow> nat \<Rightarrow> error + ('a list \<times> nat)" where
  "shuffleArray R xs c = shuffle_loop R xs (length xs - 1) c"

definition emptyPlacement :: Placement where
  "emptyPlacement = \<lparr>plantInstances = [], p_usedArea = 0, p_usedWater = 0, p_usedBudget = 0\<rparr>"

definition createSmartIndividual ::
  "GeneticAlgorithm \<Rightarrow> GAConstraints \<Rightarrow> nat \<Rightarrow> error + (Individual \<times> nat)" where
  "createSmartIndividual ga cons c =
     (let area = maxArea cons;
          aspectRatio = 0.6 + rng ga c * 0.8
      in if area * aspectRatio < 0 then Inl NotANumber
         else let w = sqrt (area * aspectRatio); h = area / w
              in ebind (Dimensions_new w h) (\<lambda>dims.
                 let numSpecies = min (int (length (selectedPlants ga)))
                                    (2 + \<lfloor>rng ga (Suc c) * real_of_int (maxSpecies (config ga) - 1)\<rfloor>)
                 in ebind (shuffleArray (rng ga) (selectedPlants ga) (Suc (Suc c))) (\<lambda>sh.
                    let chosenPlants = slice0 numSpecies (fst sh)
                    in ebind (init_plants ga cons w h chosenPlants emptyPlacement (snd sh)) (\<lambda>r.
                         Inr (Individual_new dims (plantInstances (fst r)), snd r)))))"

fun init_population ::
  "GeneticAlgorithm \<Rightarrow> GAConstraints \<Rightarrow> nat \<Rightarrow> nat \<Rightarrow> error + (Individual list \<times> nat)" where
  "init_population ga cons 0 c = Inr ([], c)"
| "init_population ga cons (Suc n) c =
     ebind (createSmartIndividual ga cons c) (\<lambda>r.
     ebind (init_population ga cons n (snd r)) (\<lambda>rest.
       Inr (fst r # fst rest, snd rest)))"

definition initializePopulationHeuristic ::
  "GeneticAlgorithm \<Rightarrow> GAConstraints \<Rightarrow> nat \<Rightarrow> error + (Individual list \<times> nat)" where
  "initializePopulationHeuristic ga cons c =
     init_population ga cons (nat (populationSize (config ga))) c"

subsection \<open>Mutation operators\<close>

text \<open>The loop of \<open>insertMutation\<close>; the natural number is the number of attempts left.\<close>

fun insert_attempts ::
  "GeneticAlgorithm \<Rightarrow> GAConstraints \<Rightarrow> Individual \<Rightarrow> Plant \<Rightarrow> nat \<Rightarrow> nat
   \<Rightarrow> error + (Individual \<times> nat)" where
  "insert_attempts ga cons ind newPlant 0 c = Inr (ind, c)"
| "insert_attempts ga cons ind newPlant (Suc k) c =
     (let margin = sqrt (plant_size newPlant);
          x = margin + rng ga c * (dim_width (dimensions ind) - 2 * margin);
          y = margin + rng ga (Suc c) * (dim_height (dimensions ind) - 2 * margin)
      in ebind (Position_new x y) (\<lambda>pos.
         ebind (PlantInstance_new newPlant pos None None None) (\<lambda>inst.
           let withinBounds = (x + width inst \<le> dim_width (dimensions ind)
                               \<and> y + height inst \<le> dim_height (dimensions ind));
               newUsedArea = usedArea ind + inst_totalArea inst;
               newWater = totalWeeklyWater ind + inst_totalWeeklyWater inst
           in if \<not> hasCollision ga inst (plants ind) \<and> withinBounds
                 \<and> newUsedArea \<le> maxArea cons * 0.85 \<and> newWater \<le> gc_maxWaterWeekly cons
              then Inr (ind\<lparr>plants := plants ind @ [inst]\<rparr>, Suc (Suc c))
              else insert_attempts ga cons ind newPlant k (Suc (Suc c)))))"

text \<open>\<open>insertMutation\<close>. An index outside the pool reads \<open>undefined\<close>, whose \<open>size\<close> the
  first attempt reads.\<close>

definition insertMutation ::
  "GeneticAlgorithm \<Rightarrow> GAConstraints \<Rightarrow> Individual \<Rightarrow> nat \<Rightarrow> error + (Individual \<times> nat)" where
  "insertMutation ga cons ind c =
     (if int (length (plants ind)) \<ge> maxSpecies (config ga) * 3 then Inr (ind, c)
      else let idx = \<lfloor>rng ga c * real (length (selectedPlants ga))\<rfloor>
           in if 0 \<le> idx \<and> idx < int (length (selectedPlants ga))
              then insert_attempts ga cons ind (selectedPlants ga ! nat idx) 30 (Suc c)
              else Inl TypeError)"

text \<open>\<open>xs.splice(idx, 1)\<close>: a negative index counts from the end.\<close>

definition splice1 :: "int \<Rightarrow> 'a list \<Rightarrow> 'a list" where
  "splice1 idx xs =
     (let start = (if idx < 0 then nat (max 0 (int (length xs) + idx)) else nat idx)
      in take start xs @ drop (Suc start) xs)"

definition deleteMutation :: "GeneticAlgorithm \<Rightarrow> Individual \<Rightarrow> nat \<Rightarrow> Individual \<times> nat" where
  "deleteMutation ga ind c =
     (if length (plants ind) \<le> 2 then (ind, c)
      else let idx = \<lfloor>rng ga c * real (length (plants ind))\<rfloor>
           in (ind\<lparr>plants := splice1 idx (plants ind)\<rparr>, Suc c))"

text \<open>The loop of \<open>positionMutation\<close> for the instance at index \<open>idx\<close>.\<close>

fun position_attempts ::
  "GeneticAlgorithm \<Rightarrow> Individual \<Rightarrow> nat \<Rightarrow> nat \<Rightarrow> nat \<Rightarrow> error + (Individual \<times> nat)" where
  "position_attempts ga ind idx 0 c = Inr (ind, c)"
| "position_attempts ga ind idx (Suc k) c =
     (let plantToMove = plants ind ! idx;
          margin = sqrt (plant_size (plant plantToMove));
          newX = margin + rng ga c * (dim_width (dimensions ind) - 2 * margin);
          newY = margin + rng ga (Suc c) * (dim_height (dimensions ind) - 2 * margin)
      in ebind (Position_new newX newY) (\<lambda>newPosition.
         ebind (PlantInstance_new (plant plantToMove) newPosition (Some (width plantToMove))
                  (Some (height plantToMove)) (Some (rotation plantToMove))) (\<lambda>movedPlant.
           let otherPlants = take idx (plants ind) @ drop (Suc idx) (plants ind);
               withinBounds = (newX + width movedPlant \<le> dim_width (dimensions ind)
                               \<and> newY + height movedPlant \<le> dim_height (dimensions ind))
           in if \<not> hasCollision ga movedPlant otherPlants \<and> withinBounds
              then Inr (ind\<lparr>plants := (plants ind)[idx := movedPlant]\<rparr>, Suc (Suc c))
              else position_attempts ga ind idx k (Suc (Suc c)))))"

definition positionMutation ::
  "GeneticAlgorithm \<Rightarrow> Individual \<Rightarrow> nat \<Rightarrow> error + (Individual \<times> nat)" where
  "positionMutation ga ind c =
     (if length (plants ind) = 0 then Inr (ind, c)
      else let idx = \<lfloor>rng ga c * real (length (plants ind))\<rfloor>
           in if 0 \<le> idx \<and> idx < int (length (plants ind))
              then position_attempts ga ind (nat idx) 20 (Suc c)
              else Inl TypeError)"

text \<open>The \<open>while (idx2 === idx1 && length > 1)\<close> loop of \<open>swapMutation\<close>, which redraws
  until the two indices differ; \<open>None\<close> when it never exits.\<close>

partial_function (option) swap_redraw ::
  "(nat \<Rightarrow> real) \<Rightarrow> nat \<Rightarrow> int \<Rightarrow> int \<Rightarrow> nat \<Rightarrow> (int \<times> nat) option" where
  "swap_redraw R len idx1 idx2 c =
     (if idx2 = idx1 \<and> len > 1 then swap_redraw R len idx1 \<lfloor>R c * real len\<rfloor> (Suc c)
      else Some (idx2, c))"

definition swapMutation ::
  "GeneticAlgorithm \<Rightarrow> Individual \<Rightarrow> nat \<Rightarrow> error + (Individual \<times> nat)" where
  "swapMutation ga ind c =
     (let len = length (plants ind)
      in if len < 2 then Inr (ind, c)
         else let idx1 = \<lfloor>rng ga c * real len\<rfloor>;
                  idx2 = \<lfloor>rng ga (Suc c) * real len\<rfloor>
              in case swap_redraw (rng ga) len idx1 idx2 (Suc (Suc c)) of
                   None \<Rightarrow> Inl NonTermination
                 | Some r \<Rightarrow>
                     if 0 \<le> idx1 \<and> idx1 < int len \<and> 0 \<le> fst r \<and> fst r < int len
                     then Inr (ind\<lparr>plants := (plants ind)[nat idx1 := plants ind ! nat (fst r),
                                                          nat (fst r) := plants ind ! nat idx1]\<rparr>, snd r)
                     else Inl IndexOutOfModel)"

text \<open>The four mutations of one offspring, in the order of the source; each is preceded by
  one draw that decides whether it is applied.\<close>

definition mutate ::
  "GeneticAlgorithm \<Rightarrow> GAConstraints \<Rightarrow> Individual \<Rightarrow> nat \<Rightarrow> error + (Individual \<times> nat)" where
  "mutate ga cons ind c =
     ebind (if rng ga c < mutationRate (config ga) then swapMutation ga ind (Suc c)
            else Inr (ind, Suc c)) (\<lambda>r1.
     ebind (if rng ga (snd r1) < insertionRate (config ga)
            then insertMutation ga cons (fst r1) (Suc (snd r1))
            else Inr (fst r1, Suc (snd r1))) (\<lambda>r2.
     let r3 = (if rng ga (snd r2) < deletionRate (config ga)
               then deleteMutation ga (fst r2) (Suc (snd r2))
               else (fst r2, Suc (snd r2)))
     in if rng ga (snd r3) < mutationRate (config ga) * 0.5
        then positionMutation ga (fst r3) (Suc (snd r3))
        else Inr (fst r3, Suc (snd r3))))"

fun mutate_all ::
  "GeneticAlgorithm \<Rightarrow> GAConstraints \<Rightarrow> Individual list \<Rightarrow> nat \<Rightarrow> error + (Individual list \<times> nat)" where
  "mutate_all ga cons [] c = Inr ([], c)"
| "mutate_all ga cons (ind # rest) c =
     ebind (mutate ga cons ind c) (\<lambda>r.
     ebind (mutate_all ga cons rest (snd r)) (\<lambda>rs.
       Inr (fst r # fst rs, snd rs)))"

subsection \<open>Selection and reproduction\<close>

text \<open>The inner loop of \<open>tournamentSelection\<close>: \<open>k\<close> draws; an index outside the population
  reads \<open>undefined\<close>, here \<open>None\<close>.\<close>

fun tournament_picks ::
  "(nat \<Rightarrow> real) \<Rightarrow> Individual list \<Rightarrow> nat \<Rightarrow> nat \<Rightarrow> Individual option list \<times> nat" where
  "tournament_picks R pop 0 c = ([], c)"
| "tournament_picks R pop (Suc k) c =
     (let randomIndex = \<lfloor>R c * real (length pop)\<rfloor>;
          pick = (if 0 \<le> randomIndex \<and> randomIndex < int (length pop)
                  then Some (pop ! nat randomIndex) else None);
          rest = tournament_picks R pop k (Suc c)
      in (pick # fst rest, snd rest))"

text \<open>\<open>tournament.reduce((best, current) => current.fitness > best.fitness ? current : best)\<close>:
  no initial value, so an empty tournament throws and a single entry is returned as it is.\<close>

definition better :: "error + Individual option \<Rightarrow> Individual option \<Rightarrow> error + Individual option" where
  "better best current =
     (case best of
        Inl e \<Rightarrow> Inl e
      | Inr None \<Rightarrow> Inl TypeError
      | Inr (Some b) \<Rightarrow>
          (case current of
             None \<Rightarrow> Inl TypeError
           | Some cur \<Rightarrow> Inr (Some (if ind_fitness cur > ind_fitness b then cur else b))))"

definition tournament_winner :: "Individual option list \<Rightarrow> error + Individual option" where
  "tournament_winner tournament =
     (case tournament of [] \<Rightarrow> Inl TypeError | first # rest \<Rightarrow> foldl better (Inr first) rest)"

fun tournament_rounds ::
  "GeneticAlgorithm \<Rightarrow> Individual list \<Rightarrow> nat \<Rightarrow> nat \<Rightarrow> error + (Individual option list \<times> nat)" where
  "tournament_rounds ga pop 0 c = Inr ([], c)"
| "tournament_rounds ga pop (Suc n) c =
     (let t = tournament_picks (rng ga) pop (nat (tournamentK (config ga))) c
      in ebind (tournament_winner (fst t)) (\<lambda>winner.
         ebind (tournament_rounds ga pop n (snd t)) (\<lambda>rest.
           Inr (winner # fst rest, snd rest))))"

definition tournamentSelection ::
  "GeneticAlgorithm \<Rightarrow> Individual list \<Rightarrow> nat \<Rightarrow> error + (Individual option list \<times> nat)" where
  "tournamentSelection ga pop c = tournament_rounds ga pop (nat (populationSize (config ga))) c"

text \<open>Phase 3 of \<open>run\<close>: the selected parents pairwise; a last unpaired one is skipped. Using
  an \<open>undefined\<close> parent throws.\<close>

fun reproduce ::
  "GeneticAlgorithm \<Rightarrow> Individual option list \<Rightarrow> nat \<Rightarrow> error + (Individual list \<times> nat)" where
  "reproduce ga (a # b # rest) c =
     (case (a, b) of
        (Some parent1, Some parent2) \<Rightarrow>
          (let r = (if rng ga c < crossoverProbability (config ga)
                    then uniformCrossover ga parent1 parent2 (Suc c)
                    else ((clone parent1, clone parent2), Suc c))
           in ebind (reproduce ga rest (snd r)) (\<lambda>offs.
                Inr (fst (fst r) # snd (fst r) # fst offs, snd offs)))
      | _ \<Rightarrow> Inl TypeError)"
| "reproduce ga [a] c = Inr ([], c)"
| "reproduce ga [] c = Inr ([], c)"

text \<open>\<open>offspring.forEach(ind => ind.metrics = this.fitnessCalculator.calculate(ind))\<close>.\<close>

fun evaluate_all :: "FitnessConfig \<Rightarrow> Individual list \<Rightarrow> error + Individual list" where
  "evaluate_all fc [] = Inr []"
| "evaluate_all fc (ind # rest) =
     ebind (calculate fc ind) (\<lambda>m.
     ebind (evaluate_all fc rest) (\<lambda>rs.
       Inr (ind\<lparr>metrics := Some m\<rparr> # rs)))"

definition calculateVariance :: "real list \<Rightarrow> real" where
  "calculateVariance vals =
     (if length vals = 0 then 0
      else let mean = foldl (\<lambda>sum v. sum + v) 0 vals / real (length vals);
               squaredDiffs = map (\<lambda>v. (v - mean)\<^sup>2) vals
           in foldl (\<lambda>sum d. sum + d) 0 squaredDiffs / real (length vals))"

definition calculateDiversity :: "Individual list \<Rightarrow> real" where
  "calculateDiversity pop = calculateVariance (map ind_fitness pop)"

definition selectPlantsIntelligently ::
  "GeneticAlgorithm \<Rightarrow> GAConstraints \<Rightarrow> Objective \<Rightarrow> Plant list" where
  "selectPlantsIntelligently ga cons ob =
     selectBestPlants
       \<lparr>sel_desiredPlantIds = desiredPlantIds cons, sel_maxSpecies = maxSpecies (config ga),
        sel_objective = ob, sel_season = None,
        sel_compatibilityMatrix = compatibilityMatrix (fitnessCalculator ga)\<rparr>
       (allPlants ga)"

subsection \<open>The evolution loop\<close>

datatype StoppingReason = Convergence | MaxGenerations | Timeout | Patience

record GenerationStat =
  gs_generation :: nat
  gs_bestFitness :: "real option"
  gs_avgFitness :: real
  gs_diversity :: real
  gs_avgSpeciesCount :: real

record LoopState =
  population :: "Individual list"
  bestFitness :: "real option"
  generationsWithoutImprovement :: nat
  generationStats :: "GenerationStat list"
  calls :: nat

text \<open>\<open>this.config.timeout && Date.now() - startTime > this.config.timeout\<close>, for the
  elapsed time read at the check.\<close>

definition timedOut :: "GAConfig \<Rightarrow> real \<Rightarrow> bool" where
  "timedOut cfg elapsed =
     (case timeout cfg of None \<Rightarrow> False | Some t \<Rightarrow> t \<noteq> 0 \<and> elapsed > t)"

text \<open>\<open>currentBest - bestFitness > 0.001\<close>, where \<open>None\<close> is \<open>-Infinity\<close>.\<close>

definition improved :: "real option \<Rightarrow> real option \<Rightarrow> bool" where
  "improved currentBest best =
     (case currentBest of
        None \<Rightarrow> False
      | Some a \<Rightarrow> (case best of None \<Rightarrow> True | Some b \<Rightarrow> a - b > 0.001))"

text \<open>Phases 2 to 6 of one generation with the bookkeeping: the state after the generation.
  The averages of an empty population, NaN in the source, are 0 here; a run with an empty
  population ends with a \<open>TypeError\<close> in any case.\<close>

definition generationStep ::
  "GeneticAlgorithm \<Rightarrow> GAConstraints \<Rightarrow> nat \<Rightarrow> LoopState \<Rightarrow> error + LoopState" where
  "generationStep ga cons g st =
     ebind (tournamentSelection ga (population st) (calls st)) (\<lambda>sel.
     ebind (reproduce ga (fst sel) (snd sel)) (\<lambda>off0.
     ebind (mutate_all ga cons (fst off0) (snd off0)) (\<lambda>off1.
     ebind (evaluate_all (fitnessCalculator ga) (fst off1)) (\<lambda>offspring.
       let pop = elitistReplacement ga (population st) offspring;
           currentBest = maxFitness pop;
           imp = improved currentBest (bestFitness st);
           stats = (if g mod 10 = 0 \<or> int g = maxGenerations (config ga) - 1
                    then generationStats st @
                         [\<lparr>gs_generation = g, gs_bestFitness = currentBest,
                           gs_avgFitness = foldl (\<lambda>sum i. sum + ind_fitness i) 0 pop / real (length pop),
                           gs_diversity = calculateDiversity pop,
                           gs_avgSpeciesCount =
                             foldl (\<lambda>sum i. sum + real (length (plants i))) 0 pop / real (length pop)\<rparr>]
                    else generationStats st)
       in Inr \<lparr>population = pop,
               bestFitness = (if imp then currentBest else bestFitness st),
               generationsWithoutImprovement =
                 (if imp then 0 else Suc (generationsWithoutImprovement st)),
               generationStats = stats,
               calls = snd off1\<rparr>))))"

text \<open>The \<open>for\<close> loop of \<open>run\<close>: \<open>k\<close> generations are left, \<open>g\<close> is the current one and
  \<open>elapsed g\<close> the time since the start read by the timeout check of generation \<open>g\<close>.\<close>

fun run_loop ::
  "GeneticAlgorithm \<Rightarrow> GAConstraints \<Rightarrow> (nat \<Rightarrow> real) \<Rightarrow> nat \<Rightarrow> nat \<Rightarrow> LoopState
   \<Rightarrow> error + (LoopState \<times> StoppingReason)" where
  "run_loop ga cons elapsed 0 g st = Inr (st, MaxGenerations)"
| "run_loop ga cons elapsed (Suc k) g st =
     (if timedOut (config ga) (elapsed g) then Inr (st, Timeout)
      else ebind (generationStep ga cons g st) (\<lambda>st'.
             if int (generationsWithoutImprovement st') \<ge> patience (config ga)
             then Inr (st', Patience)
             else if calculateVariance (map ind_fitness (population st'))
                       < convergenceThreshold (config ga)
             then Inr (st', Convergence)
             else run_loop ga cons elapsed k (Suc g) st'))"

record GAResult =
  topSolutions :: "Individual list"
  generations :: nat
  convergenceGeneration :: nat
  stoppingReason :: StoppingReason
  executionTimeMs :: real
  res_generationStats :: "GenerationStat list"
  res_selectedPlants :: "Plant list"

text \<open>The readings of the wall clock during one run: the time since the start at the
  timeout check of each generation, and at the end.\<close>

record Clock =
  atGeneration :: "nat \<Rightarrow> real"
  atEnd :: real

text \<open>\<open>GeneticAlgorithm.run\<close> on a newly constructed object. The final log line reads
  \<open>topSolutions[0].fitness\<close>, which throws when the population is empty.\<close>

definition run ::
  "GeneticAlgorithm \<Rightarrow> GAConstraints \<Rightarrow> Objective \<Rightarrow> Clock \<Rightarrow> error + GAResult" where
  "run ga0 cons ob clock =
     (let ga = ga0\<lparr>selectedPlants := selectPlantsIntelligently ga0 cons ob\<rparr>
      in ebind (initializePopulationHeuristic ga cons 0) (\<lambda>init.
         ebind (evaluate_all (fitnessCalculator ga) (fst init)) (\<lambda>pop.
         ebind (run_loop ga cons (atGeneration clock) (nat (maxGenerations (config ga))) 0
                  \<lparr>population = pop, bestFitness = maxFitness pop,
                   generationsWithoutImprovement = 0, generationStats = [], calls = snd init\<rparr>)
           (\<lambda>fin.
              let top = slice0 3 (sortByFitness (population (fst fin)))
              in if top = [] then Inl TypeError
                 else Inr \<lparr>topSolutions = top,
                          generations = length (generationStats (fst fin)) * 10,
                          convergenceGeneration = length (generationStats (fst fin)) * 10,
                          stoppingReason = snd fin,
                          executionTimeMs = atEnd clock,
                          res_generationStats = generationStats (fst fin),
                          res_selectedPlants = selectedPlants ga\<rparr>))))"

definition topSolutionsOf :: "error + GAResult \<Rightarrow> error + Individual list" where
  "topSolutionsOf r = (case r of Inl e \<Rightarrow> Inl e | Inr res \<Rightarrow> Inr (topSolutions res))"

subsection \<open>Spacing of placed instances\<close>



text \<open>The distance the genetic algorithm requires between two placed plants, with the
  compatibility of specification section 4.1 and the bases 2.0, 0.8 and 1.2 of
  \<open>hasAdequateSpacing\<close>.\<close>

definition GA_requiredDistance :: "CompatibilityMatrix \<Rightarrow> Plant \<Rightarrow> Plant \<Rightarrow> real" where
  "GA_requiredDistance m plant1 plant2 =
     GA_minDistance (spec_lookup m (species plant1) (species plant2))
       + sqrt (plant_size plant1) / 2 + sqrt (plant_size plant2) / 2"

section \<open>Orchestrator\<close>

record GenerateGardenRequestDto =
  userId :: string
  req_desiredPlantIds :: "int list option"
  maxPlantSpecies :: "int option"
  req_dimensions :: "(real \<times> real) option"
  waterLimit :: "real option"
  userExperience :: "int option"
  req_season :: "string option"
  location :: "(real \<times> real) option"
  categoryDistribution :: "CategoryDistributionData option"
  budget :: "real option"
  req_objective :: "Objective option"
  maintenanceMinutes :: "real option"

record NormalizedRequest =
  n_userId :: string
  n_desiredPlantIds :: "int list"
  n_maxPlantSpecies :: int
  n_dimensions :: "real \<times> real"
  n_waterLimit :: real
  n_userExperience :: int
  n_season :: string
  n_location :: "real \<times> real"
  n_categoryDistribution :: CategoryDistribution
  n_budget :: real
  n_objective :: Objective
  n_maintenanceMinutes :: real

text \<open>The part of \<open>env\<close> that \<open>normalizeRequest\<close> reads.\<close>

record Env =
  defaultLatitude :: real
  defaultLongitude :: real

text \<open>\<open>a || b\<close> on numbers: 0 and a missing value are falsy.\<close>

definition orElse :: "real option \<Rightarrow> real \<Rightarrow> real" where
  "orElse a b = (case a of None \<Rightarrow> b | Some v \<Rightarrow> if v = 0 then b else v)"

definition orElseInt :: "int option \<Rightarrow> int \<Rightarrow> int" where
  "orElseInt a b = (case a of None \<Rightarrow> b | Some v \<Rightarrow> if v = 0 then b else v)"

text \<open>\<open>GenerateGardenUseCase.normalizeRequest\<close>. \<open>mathRandom\<close> is the sequence of values
  \<open>Math.random\<close> returns; the first two calls draw the random area and aspect, the third is
  made only when \<open>waterLimit\<close> is missing or 0. The category distribution is built by the
  constructor of \<open>CategoryDistribution\<close>: from the request's data when present, with no
  argument otherwise.\<close>

definition normalizeRequest ::
  "Env \<Rightarrow> (nat \<Rightarrow> real) \<Rightarrow> GenerateGardenRequestDto \<Rightarrow> error + NormalizedRequest" where
  "normalizeRequest env mathRandom request =
     (let randomArea = 1 + mathRandom 0 * 4;
          randomWidth = sqrt (randomArea * (0.5 + mathRandom 1));
          randomHeight = randomArea / randomWidth
      in ebind (case categoryDistribution request of
                  Some d \<Rightarrow> CategoryDistribution_new d
                | None \<Rightarrow> CategoryDistribution_new emptyData)
           (\<lambda>cd. Inr
             \<lparr>n_userId = userId request,
              n_desiredPlantIds = (case req_desiredPlantIds request of None \<Rightarrow> [] | Some ids \<Rightarrow> ids),
              n_maxPlantSpecies = orElseInt (maxPlantSpecies request) 5,
              n_dimensions = (case req_dimensions request of
                                None \<Rightarrow> (randomWidth, randomHeight) | Some d \<Rightarrow> d),
              n_waterLimit = orElse (waterLimit request) (randomArea * (50 + mathRandom 2 * 30)),
              n_userExperience = orElseInt (userExperience request) 2,
              n_season = (case req_season request of
                            None \<Rightarrow> ''auto'' | Some v \<Rightarrow> if v = [] then ''auto'' else v),
              n_location = (case location request of
                              None \<Rightarrow> (defaultLatitude env, defaultLongitude env) | Some l \<Rightarrow> l),
              n_categoryDistribution = cd,
              n_budget = orElse (budget request) (randomArea * 200),
              n_objective = (case req_objective request of None \<Rightarrow> Alimenticio | Some ob \<Rightarrow> ob),
              n_maintenanceMinutes =
                orElse (maintenanceMinutes request)
                  (real_of_int (orElseInt (userExperience request) 2) * 60)\<rparr>))"

text \<open>\<open>GenerateGardenUseCase.execute\<close>: the request is normalized first, inside the
  \<open>try\<close> whose handler rethrows; \<open>pipeline\<close> stands for steps 2 to 8 (loading, the genetic
  algorithm, calendars and the response), which run only after normalization returned.\<close>

definition execute ::
  "Env \<Rightarrow> (nat \<Rightarrow> real) \<Rightarrow> (NormalizedRequest \<Rightarrow> error + 'r) \<Rightarrow> GenerateGardenRequestDto \<Rightarrow> error + 'r" where
  "execute env mathRandom pipeline request =
     ebind (normalizeRequest env mathRandom request) pipeline"

section \<open>Example data\<close>

definition tomate :: Plant where
  "tomate = \<lparr>plant_id = 2, species = ''Tomate'', scientificName = ''Solanum lycopersicum'',
     plant_type = [''vegetable''], sunRequirement = ''high'', weeklyWatering = 80,
     harvestDays = 90, soilType = ''franco'', waterPerKg = 50, benefits = [], plant_size = 1\<rparr>"

definition tomateAt :: "real \<Rightarrow> real \<Rightarrow> PlantInstance" where
  "tomateAt x y = \<lparr>plant = tomate, position = \<lparr>pos_x = x, pos_y = y\<rparr>, width = 1, height = 1,
     rotation = 0, status = Pending\<rparr>"

definition oneTomate :: Individual where
  "oneTomate = \<lparr>dimensions = \<lparr>dim_width = 2, dim_height = 1\<rparr>, genome = [],
     plants = [tomateAt 1 0], metrics = None\<rparr>"

definition exampleConfig :: "real \<Rightarrow> FitnessConfig" where
  "exampleConfig waterMax = \<lparr>compatibilityMatrix = Map.empty, objective = Alimenticio,
     desiredCategoryDistribution = None, maxWaterWeekly = waterMax\<rparr>"

definition cilantro :: Plant where
  "cilantro = \<lparr>plant_id = 1, species = ''Cilantro'', scientificName = ''Coriandrum sativum'',
     plant_type = [''aromatic'', ''medicinal''], sunRequirement = ''medium'', weeklyWatering = 20,
     harvestDays = 45, soilType = ''arenoso'', waterPerKg = 30, benefits = [], plant_size = 1 / 4\<rparr>"

definition albahaca :: Plant where
  "albahaca = \<lparr>plant_id = 3, species = ''Albahaca'', scientificName = ''Ocimum basilicum'',
     plant_type = [''aromatic''], sunRequirement = ''high'', weeklyWatering = 30,
     harvestDays = 60, soilType = ''franco'', waterPerKg = 40, benefits = [], plant_size = 1 / 4\<rparr>"

definition catalogue :: "Plant list" where
  "catalogue = [cilantro, tomate, albahaca]"

definition selectorConfig :: "int \<Rightarrow> int list option \<Rightarrow> PlantSelectionConfig" where
  "selectorConfig n ids = \<lparr>sel_desiredPlantIds = ids, sel_maxSpecies = n,
     sel_objective = Alimenticio, sel_season = None, sel_compatibilityMatrix = Map.empty\<rparr>"

definition tallPlot :: Individual where
  "tallPlot = \<lparr>dimensions = \<lparr>dim_width = 1, dim_height = 2\<rparr>, genome = [],
     plants = [tomateAt 0 1], metrics = None\<rparr>"

definition exampleGAConfig :: GAConfig where
  "exampleGAConfig = \<lparr>populationSize = 2, maxGenerations = 1, crossoverProbability = 0,
     mutationRate = 0, insertionRate = 1, deletionRate = 0, tournamentK = 1, eliteCount = 1,
     patience = 20, convergenceThreshold = 0, timeout = Some 1, seed = Some 42, maxSpecies = 3\<rparr>"

definition exampleGA :: GeneticAlgorithm where
  "exampleGA = GeneticAlgorithm_new (\<lambda>n. 0) [tomate] (exampleConfig 100) exampleGAConfig"

definition minimalRequest :: GenerateGardenRequestDto where
  "minimalRequest = \<lparr>userId = ''u'', req_desiredPlantIds = None, maxPlantSpecies = None,
     req_dimensions = None, waterLimit = None, userExperience = Some 2, req_season = None,
     location = None, categoryDistribution = None, budget = None, req_objective = None,
     maintenanceMinutes = None\<rparr>"

definition defaultEnv :: Env where
  "defaultEnv = \<lparr>defaultLatitude = 16.75, defaultLongitude = - 93.11\<rparr>"






text \<open>A run that can tell two clocks apart: the catalogue is the tomato alone, every
  layout should be all vegetable, the budget of 1 lets the initializer place nothing (its
  budget check rejects a plant of cost 50), while the insert mutation, which has no budget
  check, adds a plant in the first generation.\<close>

definition vegOnly :: CategoryDistribution where
  "vegOnly = \<lparr>vegetable = Num 100, medicinal = Num 0, ornamental = Num 0, aromatic = Num 0\<rparr>"

definition vegConfig :: FitnessConfig where
  "vegConfig = \<lparr>compatibilityMatrix = Map.empty, objective = Alimenticio,
     desiredCategoryDistribution = Some vegOnly, maxWaterWeekly = 100\<rparr>"

definition consX :: GAConstraints where
  "consX = \<lparr>maxArea = 16, gc_maxWaterWeekly = 100, maxBudget = Some 1,
     gc_desiredCategoryDistribution = Some vegOnly, desiredPlantIds = None\<rparr>"

definition gaX0 :: GeneticAlgorithm where
  "gaX0 = GeneticAlgorithm_new (\<lambda>n. 0) [tomate] vegConfig exampleGAConfig"

definition gaX :: GeneticAlgorithm where
  "gaX = gaX0\<lparr>selectedPlants := [tomate]\<rparr>"

text \<open>On the slow clock the first timeout check already reads 5 ms; on the fast one every
  check reads 0 ms. The configured timeout is 1 ms.\<close>

definition clockSlow :: Clock where
  "clockSlow = \<lparr>atGeneration = (\<lambda>g. 5), atEnd = 6\<rparr>"

definition clockFast :: Clock where
  "clockFast = \<lparr>atGeneration = (\<lambda>g. 0), atEnd = 1\<rparr>"

text \<open>The metrics of a layout without plants and of a layout with one tomato on 16 square
  metres, under \<open>vegConfig\<close>.\<close>

definition emptyMetrics :: Metrics where
  "emptyMetrics = \<lparr>CEE = 1, PSRNT = max 0 (1 - sqrt 1875 / 100), EH = 0, UE = 0,
     fitness = 0.15 + 0.4 * max 0 (1 - sqrt 1875 / 100)\<rparr>"

definition tomatoMetrics :: Metrics where
  "tomatoMetrics = \<lparr>CEE = 1, PSRNT = 1, EH = 1, UE = 5 / 56, fitness = 397 / 560\<rparr>"

text \<open>Shapes of the individuals of that run: the exact plot sides and positions are square
  roots and products of random draws, and only these facts about them are needed.\<close>

definition tomatoShape :: "Individual \<Rightarrow> bool" where
  "tomatoShape i = ((\<exists>x y. plants i = [tomateAt x y])
     \<and> dim_width (dimensions i) * dim_height (dimensions i) = 16)"

definition emptyShape :: "Individual \<Rightarrow> bool" where
  "emptyShape i = (plants i = [] \<and> 2 \<le> dim_width (dimensions i) \<and> 2 \<le> dim_height (dimensions i)
     \<and> dim_width (dimensions i) * dim_height (dimensions i) = 16)"

definition evalEmpty :: "Individual \<Rightarrow> bool" where
  "evalEmpty i = (emptyShape i \<and> metrics i = Some emptyMetrics)"

definition evalTomato :: "Individual \<Rightarrow> bool" where
  "evalTomato i = (tomatoShape i \<and> metrics i = Some tomatoMetrics)"

definition emptyFour :: Individual where
  "emptyFour = \<lparr>dimensions = \<lparr>dim_width = 4, dim_height = 4\<rparr>, genome = [], plants = [],
     metrics = Some emptyMetrics\<rparr>"

definition stateW :: LoopState where
  "stateW = \<lparr>population = [emptyFour, emptyFour], bestFitness = maxFitness [emptyFour, emptyFour],
     generationsWithoutImprovement = 0, generationStats = [], calls = 0\<rparr>"

text \<open>A layout with one plant whose type list holds the name of a property that every
  object inherits.\<close>

definition taggedPlant :: Plant where
  "taggedPlant = tomate\<lparr>plant_type := [''constructor'']\<rparr>"

definition taggedGarden :: Individual where
  "taggedGarden = \<lparr>dimensions = \<lparr>dim_width = 2, dim_height = 1\<rparr>, genome = [],
     plants = [\<lparr>plant = taggedPlant, position = \<lparr>pos_x = 1, pos_y = 0\<rparr>, width = 1,
                height = 1, rotation = 0, status = Pending\<rparr>],
     metrics = None\<rparr>"

section \<open>Theorems\<close>

lemma bidirectional_lookups_meet_spec:
  "FitnessCalculator_getCompatibilityScore m a b = spec_lookup m a b"
  "ValidationService_getCompatibilityScore m a b = spec_lookup m a b"
  "PlantSelectorService_getCompatibility m a b = spec_lookup m a b"
  by (auto simp: FitnessCalculator_getCompatibilityScore_def
      ValidationService_getCompatibilityScore_def PlantSelectorService_getCompatibility_def
      spec_lookup_def split: option.splits)

text \<open>
  Claim C7. Every component's compatibility lookup should return the entry under (a, b),
  else the entry under (b, a), else 0. On the matrix with the single entry
  (Cilantro, Tomate, 1) the reversed query (Tomate, Cilantro) is answered 1 by the fitness
  evaluator, the validator and the selector, as specified, but 0 by the spacing service and
  by the genetic algorithm, which never consult the entry under (b, a).
\<close>

theorem C7_one_directional_lookups:
  "spec_lookup oneWayMatrix ''Tomate'' ''Cilantro'' = 1
   \<and> FitnessCalculator_getCompatibilityScore oneWayMatrix ''Tomate'' ''Cilantro'' = 1
   \<and> ValidationService_getCompatibilityScore oneWayMatrix ''Tomate'' ''Cilantro'' = 1
   \<and> PlantSelectorService_getCompatibility oneWayMatrix ''Tomate'' ''Cilantro'' = 1
   \<and> PlantSpacingService_getCompatibilityScore oneWayMatrix ''Tomate'' ''Cilantro'' = 0
   \<and> GeneticAlgorithm_getCompatibilityScore oneWayMatrix ''Tomate'' ''Cilantro'' = 0"
  by (simp add: spec_lookup_def get2_def oneWayMatrix_def
      FitnessCalculator_getCompatibilityScore_def ValidationService_getCompatibilityScore_def
      PlantSelectorService_getCompatibility_def PlantSpacingService_getCompatibilityScore_def
      GeneticAlgorithm_getCompatibilityScore_def)


subsection \<open>Fitness evaluator\<close>

lemma Metrics_new_Inr:
  "Metrics_new (Num cee) (Num psrnt) (Num eh) (Num ue) w = Inr m \<Longrightarrow>
     0 \<le> cee \<and> cee \<le> 1 \<and> 0 \<le> psrnt \<and> psrnt \<le> 1 \<and> 0 \<le> eh \<and> eh \<le> 1 \<and> 0 \<le> ue \<and> ue \<le> 1
     \<and> m = \<lparr>CEE = cee, PSRNT = psrnt, EH = eh, UE = ue, fitness = calculateFitness w cee psrnt eh ue\<rparr>"
  by (auto simp: Metrics_new_def ebind_def validateMetric_def split: if_splits)

lemma validateMetric_NaN: "validateMetric NaN name = Inr NaN"
  by (simp add: validateMetric_def)

lemma Metrics_new_NaN: "Metrics_new (Num cee) NaN (Num eh) (Num ue) w \<noteq> Inr m"
  by (auto simp: Metrics_new_def ebind_def validateMetric_def split: if_splits)

lemma calculate_Inr:
  assumes "calculate cfg ind = Inr m"
  shows "\<exists>psrnt. calculatePSRNT cfg ind = Inr (Num psrnt) \<and>
     Metrics_new (Num (calculateCEE cfg ind)) (Num psrnt) (Num (calculateEH cfg ind))
        (Num (calculateUE ind)) (OBJECTIVE_WEIGHTS (objective cfg)) = Inr m"
proof -
  obtain p where p: "calculatePSRNT cfg ind = Inr p"
    and n: "Metrics_new (Num (calculateCEE cfg ind)) p (Num (calculateEH cfg ind))
        (Num (calculateUE ind)) (OBJECTIVE_WEIGHTS (objective cfg)) = Inr m"
    using assms by (auto simp: calculate_def Let_def split: sum.splits)
  show ?thesis
  proof (cases p)
    case (Num r)
    then show ?thesis using p n by simp
  next
    case NaN
    then show ?thesis using n Metrics_new_NaN by simp
  qed
qed

lemma weights_bounds:
  "0 \<le> wCEE (OBJECTIVE_WEIGHTS ob)" "0 \<le> wPSRNT (OBJECTIVE_WEIGHTS ob)"
  "0 \<le> wEH (OBJECTIVE_WEIGHTS ob)" "0 \<le> wUE (OBJECTIVE_WEIGHTS ob)"
  "appliedWeightTotal (OBJECTIVE_WEIGHTS ob) = (if ob = Alimenticio then 0.8 else 0.75)"
  by (cases ob; simp add: appliedWeightTotal_def)+

lemma weighted_sum_bounds:
  fixes a b c d :: real
  assumes "0 \<le> wa" "0 \<le> wb" "0 \<le> wc" "0 \<le> wd" "wa + wb + wc + wd \<le> 1"
    "0 \<le> a" "a \<le> 1" "0 \<le> b" "b \<le> 1" "0 \<le> c" "c \<le> 1" "0 \<le> d" "d \<le> 1"
  shows "0 \<le> wa * a + wb * b + wc * c + wd * d" "wa * a + wb * b + wc * c + wd * d \<le> 1"
proof -
  show "0 \<le> wa * a + wb * b + wc * c + wd * d" using assms by simp
  have "wa * a \<le> wa" "wb * b \<le> wb" "wc * c \<le> wc" "wd * d \<le> wd"
    using assms by (simp_all add: mult_left_le)
  then show "wa * a + wb * b + wc * c + wd * d \<le> 1" using assms(5) by linarith
qed













text \<open>
  What the constructor of \<open>Metrics\<close> does guarantee: when the evaluator returns a
  metrics record, none of the four sub-scores was NaN, and each stored sub-metric and the
  stored fitness lie in [0, 1].
\<close>

lemma stored_metrics_in_unit_interval:
  assumes "calculate cfg ind = Inr m"
  shows "0 \<le> CEE m \<and> CEE m \<le> 1 \<and> 0 \<le> PSRNT m \<and> PSRNT m \<le> 1
       \<and> 0 \<le> EH m \<and> EH m \<le> 1 \<and> 0 \<le> UE m \<and> UE m \<le> 1
       \<and> 0 \<le> fitness m \<and> fitness m \<le> 1"
proof -
  obtain psrnt where
    n: "Metrics_new (Num (calculateCEE cfg ind)) (Num psrnt) (Num (calculateEH cfg ind))
              (Num (calculateUE ind)) (OBJECTIVE_WEIGHTS (objective cfg)) = Inr m"
    using calculate_Inr [OF assms] by blast
  let ?w = "OBJECTIVE_WEIGHTS (objective cfg)"
  from Metrics_new_Inr [OF n] have
    b: "0 \<le> CEE m" "CEE m \<le> 1" "0 \<le> PSRNT m" "PSRNT m \<le> 1"
       "0 \<le> EH m" "EH m \<le> 1" "0 \<le> UE m" "UE m \<le> 1"
    and f: "fitness m = wCEE ?w * CEE m + wPSRNT ?w * PSRNT m + wEH ?w * EH m + wUE ?w * UE m"
    by (simp_all add: calculateFitness_def)
  have t: "wCEE ?w + wPSRNT ?w + wEH ?w + wUE ?w \<le> 1"
    using weights_bounds(5) [of "objective cfg"] by (simp add: appliedWeightTotal_def split: if_splits)
  have "0 \<le> fitness m" "fitness m \<le> 1"
    unfolding f
    using weighted_sum_bounds [OF weights_bounds(1-4) [of "objective cfg"] t b] by simp_all
  then show ?thesis using b by simp
qed

lemma countPlants_tagged:
  "countPlants (plants taggedGarden)
     = \<lparr>c_vegetable = 0, c_medicinal = 0, c_aromatic = 0, c_ornamental = 0, c_text = True\<rparr>"
  by (simp add: countPlants_def taggedGarden_def taggedPlant_def tomate_def countType_def
      inheritedFunctions_def)

lemma calculateCategoryDistribution_tagged:
  "calculateCategoryDistribution taggedGarden
     = Inr \<lparr>vegetable = NaN, medicinal = NaN, ornamental = NaN, aromatic = NaN\<rparr>"
  by (simp add: calculateCategoryDistribution_def countPlants_tagged countsTotal_def
      CategoryDistribution_new_def someData_def orZero_def Let_def)

lemma calculatePSRNT_tagged: "calculatePSRNT vegConfig taggedGarden = Inr NaN"
  by (simp add: calculatePSRNT_def vegConfig_def calculateCategoryDistribution_tagged Let_def)

text \<open>
  Claim C9: for every individual whose metrics the evaluator has computed, every
  sub-metric and the fitness lie in [0, 1]. The source does not keep this on a layout with
  one plant whose type list is \<open>['constructor']\<close>, evaluated against a desired category
  distribution: \<open>type in counts\<close> is true for the inherited property, the total of the
  counts becomes a string, all four category percentages are NaN, the constructor of
  \<open>CategoryDistribution\<close> does not throw on the NaN sum, and PSRNT is NaN. Both
  comparisons of \<open>validateMetric\<close> are false for NaN, so no range error is thrown: the
  evaluator ends with NaN as PSRNT and as fitness, which are not in [0, 1].
\<close>

theorem C9_nan_metric_not_rejected:
  "calculateCategoryDistribution taggedGarden
     = Inr \<lparr>vegetable = NaN, medicinal = NaN, ornamental = NaN, aromatic = NaN\<rparr>
   \<and> calculatePSRNT vegConfig taggedGarden = Inr NaN
   \<and> validateMetric NaN ''PSRNT'' = Inr NaN
   \<and> calculate vegConfig taggedGarden = Inl NotANumber"
proof -
  have cee: "calculateCEE vegConfig taggedGarden = 1"
    by (simp add: calculateCEE_def taggedGarden_def)
  have eh: "calculateEH vegConfig taggedGarden = 1"
    by (simp add: calculateEH_def totalWeeklyWater_def taggedGarden_def inst_totalWeeklyWater_def
        taggedPlant_def tomate_def vegConfig_def EH_curve_def)
  have ue: "calculateUE taggedGarden = 5 / 7"
    by (simp add: calculateUE_def usedArea_def taggedGarden_def inst_totalArea_def
        dim_totalArea_def Let_def)
  have "calculate vegConfig taggedGarden = Inl NotANumber"
    by (simp add: calculate_def calculatePSRNT_tagged cee eh ue Metrics_new_def ebind_def
        validateMetric_def Let_def)
  then show ?thesis
    by (simp add: calculateCategoryDistribution_tagged calculatePSRNT_tagged validateMetric_NaN)
qed

subsection \<open>Water efficiency\<close>







subsection \<open>Plant selector\<close>

lemma compat_step_ignores_ids:
  "compat_step (cfg\<lparr>sel_desiredPlantIds := x\<rparr>) = compat_step cfg"
  by (intro ext) (simp add: compat_step_def)

lemma scorePlant_ignores_ids:
  "scorePlant (cfg\<lparr>sel_desiredPlantIds := x\<rparr>) = scorePlant cfg"
  by (intro ext) (simp add: scorePlant_def scoreByObjective_def scoreByCompatibility_def
        compat_step_ignores_ids)

lemma greedySelection_ignores_ids:
  "greedySelection (cfg\<lparr>sel_desiredPlantIds := x\<rparr>) = greedySelection cfg"
proof -
  have p: "greedy_pick (cfg\<lparr>sel_desiredPlantIds := x\<rparr>) sc sel = greedy_pick cfg sc sel" for sc sel
    by (induction sc arbitrary: sel) (simp_all add: checkCompatibilityWithSelected_def)
  have f: "greedy_fill (cfg\<lparr>sel_desiredPlantIds := x\<rparr>) sc sel = greedy_fill cfg sc sel" for sc sel
    by (induction sc arbitrary: sel) simp_all
  show ?thesis
    by (intro ext) (simp add: greedySelection_def p f Let_def cong: if_cong)
qed

text \<open>When fewer than \<open>maxSpecies\<close> catalogue plants carry a desired id, the selector falls
  back to the full catalogue and the preference has no effect.\<close>

lemma selector_fallback:
  assumes "int (length (filter (\<lambda>q. plant_id q \<in> set ids) plantList)) < sel_maxSpecies cfg"
  shows "selectBestPlants (cfg\<lparr>sel_desiredPlantIds := Some ids\<rparr>) plantList
       = selectBestPlants (cfg\<lparr>sel_desiredPlantIds := None\<rparr>) plantList"
proof (cases "ids = []")
  case True
  then show ?thesis
    by (simp add: selectBestPlants_def filterBySeason_def filterByUserPreferences_def Let_def
        scorePlant_ignores_ids greedySelection_ignores_ids)
next
  case False
  then show ?thesis
    using assms
    by (simp add: selectBestPlants_def filterBySeason_def filterByUserPreferences_def Let_def
        scorePlant_ignores_ids greedySelection_ignores_ids)
qed

lemma filter_unique_key:
  assumes "distinct (map f xs)" "p \<in> set xs"
  shows "filter (\<lambda>q. f q = f p) xs = [p]"
  using assms
proof (induction xs)
  case Nil
  then show ?case by simp
next
  case (Cons a xs)
  show ?case
  proof (cases "a = p")
    case True
    have "filter (\<lambda>q. f q = f p) xs = []"
      using Cons.prems(1) True by (auto simp: filter_empty_conv image_iff)
    then show ?thesis using True by simp
  next
    case False
    then have "p \<in> set xs" using Cons.prems by simp
    moreover have "f a \<noteq> f p" using Cons.prems False by auto
    ultimately show ?thesis using Cons by simp
  qed
qed

lemma selector_single_species:
  assumes "distinct (map plant_id plantList)" "p \<in> set plantList" "sel_maxSpecies cfg = 1"
  shows "selectBestPlants (cfg\<lparr>sel_desiredPlantIds := Some [plant_id p]\<rparr>) plantList = [p]"
proof -
  have "filter (\<lambda>q. plant_id q = plant_id p) plantList = [p]"
    using filter_unique_key [OF assms(1,2)] .
  then show ?thesis
    using assms(3)
    by (simp add: selectBestPlants_def filterBySeason_def filterByUserPreferences_def Let_def
        sortByScore_def greedySelection_def checkCompatibilityWithSelected_def scorePlant_def)
qed

lemma select_tomate_of_three:
  "selectBestPlants (selectorConfig 3 (Some [plant_id tomate])) catalogue
     = [tomate, cilantro, albahaca]"
  apply (simp add: selectBestPlants_def selectorConfig_def catalogue_def filterBySeason_def
      filterByUserPreferences_def Let_def tomate_def cilantro_def albahaca_def)
  apply (simp add: scorePlant_def scoreByObjective_def scoreByCompatibility_def
      scoreByResourceEfficiency_def scoreByNutritionalDiversity_def hasType_def compat_step_def
      PlantSelectorService_getCompatibility_def get2_def sortByScore_def)
  apply (simp add: greedySelection_def checkCompatibilityWithSelected_def
      PlantSelectorService_getCompatibility_def get2_def)
  done

lemma catalogue_facts:
  "tomate \<in> set catalogue" "distinct (map plant_id catalogue)"
  by (simp_all add: catalogue_def tomate_def cilantro_def albahaca_def)

text \<open>
  Claim C3, as stated: with \<open>desiredPlantIds = {p.id}\<close> and \<open>p\<close> in the catalogue the pool
  is exactly \<open>[p]\<close>. With the catalogue (Cilantro 1, Tomate 2, Albahaca 3), \<open>maxSpecies = 3\<close>
  and \<open>desiredPlantIds = [2]\<close>, one candidate is fewer than three, the selector falls back to
  the full catalogue and returns all three species.
\<close>

theorem C3_singleton_pool_counterexample:
  "tomate \<in> set catalogue
   \<and> selectBestPlants (selectorConfig 3 (Some [plant_id tomate])) catalogue
       = [tomate, cilantro, albahaca]
   \<and> selectBestPlants (selectorConfig 3 (Some [plant_id tomate])) catalogue \<noteq> [tomate]"
  by (simp add: select_tomate_of_three catalogue_facts(1))

text \<open>
  Claim C3, amended: for every catalogue with unique ids that contains \<open>p\<close>, the selector
  run with \<open>desiredPlantIds = {p.id}\<close> returns exactly \<open>[p]\<close> when \<open>maxSpecies = 1\<close>; when
  \<open>maxSpecies > 1\<close> (as for the values 3 and 5) the single candidate is fewer than
  \<open>maxSpecies\<close>, the selector falls back to the full catalogue, and the pool is the one it
  returns without any \<open>desiredPlantIds\<close>.
\<close>

theorem C3_singleton_preference:
  assumes "p \<in> set plantList" and "distinct (map plant_id plantList)"
  shows "(sel_maxSpecies cfg = 1 \<longrightarrow>
            selectBestPlants (cfg\<lparr>sel_desiredPlantIds := Some [plant_id p]\<rparr>) plantList = [p])
       \<and> (sel_maxSpecies cfg > 1 \<longrightarrow>
            selectBestPlants (cfg\<lparr>sel_desiredPlantIds := Some [plant_id p]\<rparr>) plantList
              = selectBestPlants (cfg\<lparr>sel_desiredPlantIds := None\<rparr>) plantList)"
proof (intro conjI impI)
  assume "sel_maxSpecies cfg = 1"
  then show "selectBestPlants (cfg\<lparr>sel_desiredPlantIds := Some [plant_id p]\<rparr>) plantList = [p]"
    using selector_single_species [OF assms(2,1)] by simp
next
  assume m: "sel_maxSpecies cfg > 1"
  have "filter (\<lambda>q. plant_id q \<in> set [plant_id p]) plantList = [p]"
    using filter_unique_key [OF assms(2,1)] by simp
  then have "int (length (filter (\<lambda>q. plant_id q \<in> set [plant_id p]) plantList)) < sel_maxSpecies cfg"
    using m by simp
  then show "selectBestPlants (cfg\<lparr>sel_desiredPlantIds := Some [plant_id p]\<rparr>) plantList
              = selectBestPlants (cfg\<lparr>sel_desiredPlantIds := None\<rparr>) plantList"
    by (rule selector_fallback)
qed

theorem C3_singleton_preference_witness:
  "tomate \<in> set catalogue \<and> distinct (map plant_id catalogue)
   \<and> sel_maxSpecies (selectorConfig 1 None) = 1
   \<and> selectBestPlants (selectorConfig 1 (Some [plant_id tomate])) catalogue = [tomate]
   \<and> sel_maxSpecies (selectorConfig 3 None) > 1
   \<and> selectBestPlants (selectorConfig 3 (Some [plant_id tomate])) catalogue
       = selectBestPlants (selectorConfig 3 None) catalogue"
proof -
  have u: "(selectorConfig n None)\<lparr>sel_desiredPlantIds := x\<rparr> = selectorConfig n x" for n x
    by (simp add: selectorConfig_def)
  have m: "sel_maxSpecies (selectorConfig n None) = n" for n
    by (simp add: selectorConfig_def)
  show ?thesis
    using C3_singleton_preference [OF catalogue_facts, of "selectorConfig 1 None"]
      C3_singleton_preference [OF catalogue_facts, of "selectorConfig 3 None"]
    by (simp add: u m catalogue_facts)
qed

subsection \<open>Uniform crossover\<close>

lemma uniformCrossover_dimensions:
  "dimensions (fst (fst (uniformCrossover ga parent1 parent2 c))) = dimensions parent1"
  "dimensions (snd (fst (uniformCrossover ga parent1 parent2 c))) = dimensions parent2"
  by (simp_all add: uniformCrossover_def clone_def Individual_new_def Let_def split: prod.splits)

text \<open>
  Claim C5, as stated: both children have the first parent's dimensions. Crossing the
  one-tomato layout on a 2 m by 1 m plot with a one-tomato layout on a 1 m by 2 m plot, the
  second child has the 1 m by 2 m plot of the second parent.
\<close>

theorem C5_second_child_counterexample:
  "dimensions (snd (fst (uniformCrossover exampleGA oneTomate tallPlot 0)))
     = \<lparr>dim_width = 1, dim_height = 2\<rparr>
   \<and> dimensions oneTomate = \<lparr>dim_width = 2, dim_height = 1\<rparr>
   \<and> dimensions (snd (fst (uniformCrossover exampleGA oneTomate tallPlot 0))) \<noteq> dimensions oneTomate"
  by (simp add: uniformCrossover_dimensions(2)) (simp add: tallPlot_def oneTomate_def)

text \<open>
  Claim C5, amended: for every pair of parents on which uniform crossover is applied, the
  first child has the first parent's dimensions and the second child has the second
  parent's dimensions.
\<close>

theorem C5_children_dimensions:
  "dimensions (fst (fst (uniformCrossover ga parent1 parent2 c))) = dimensions parent1
   \<and> dimensions (snd (fst (uniformCrossover ga parent1 parent2 c))) = dimensions parent2"
  by (simp add: uniformCrossover_dimensions)


subsection \<open>Request normalization\<close>

lemma CategoryDistribution_new_empty: "CategoryDistribution_new emptyData = Inl CategorySumError"
  by (simp add: CategoryDistribution_new_def emptyData_def orZero_def)

text \<open>Every request without a category distribution is rejected, whatever the random
  draws and the pipeline.\<close>

lemma normalizeRequest_without_distribution:
  assumes "categoryDistribution request = None"
  shows "normalizeRequest env mathRandom request = Inl CategorySumError"
    and "execute env mathRandom pipeline request = Inl CategorySumError"
  using assms
  by (simp_all add: execute_def normalizeRequest_def CategoryDistribution_new_empty ebind_def Let_def)

text \<open>
  Claim C4: a request with only \<open>userId\<close> and \<open>userExperience\<close> should be normalized with
  defaults and processed, returning 3 solutions. On the request \<open>{userId: "u",
  userExperience: 2}\<close> the default category distribution is built by the constructor
  without an argument: all four percentages are 0, the sum is not 100, the constructor
  throws, and \<open>execute\<close> rethrows before any solution is computed.
\<close>

theorem C4_minimal_request_throws:
  "normalizeRequest defaultEnv mathRandom minimalRequest = Inl CategorySumError
   \<and> execute defaultEnv mathRandom pipeline minimalRequest = Inl CategorySumError"
proof -
  have "categoryDistribution minimalRequest = None"
    by (simp add: minimalRequest_def)
  then show ?thesis
    by (simp add: normalizeRequest_without_distribution)
qed


subsection \<open>Elitist replacement\<close>

lemma foldl_max_Max:
  fixes a :: real
  shows "foldl max a xs = Max (insert a (set xs))"
proof (induction xs arbitrary: a)
  case Nil
  then show ?case by simp
next
  case (Cons x xs)
  have "Max (insert (max a x) (set xs)) = Max (insert a (insert x (set xs)))"
    by (cases "set xs = {}") (simp_all add: max.assoc)
  then show ?case using Cons by simp
qed

lemma maxFitness_Max:
  "pop \<noteq> [] \<Longrightarrow> maxFitness pop = Some (Max (ind_fitness ` set pop))"
  by (cases pop) (simp_all add: maxFitness_def foldl_max_Max)

lemma sorted_desc_hd_Max:
  fixes f :: "'a \<Rightarrow> real"
  assumes "sorted (map (\<lambda>a. - f a) ys)" "ys \<noteq> []"
  shows "Max (f ` set ys) = f (hd ys)"
proof -
  obtain y rest where ys: "ys = y # rest" using assms(2) by (cases ys) auto
  have "\<forall>z \<in> set rest. f z \<le> f y" using assms(1) ys by auto
  then show ?thesis unfolding ys by (auto intro!: Max_eqI)
qed

lemma Max_take_sorted_desc:
  fixes f :: "'a \<Rightarrow> real"
  assumes "sorted (map (\<lambda>a. - f a) ys)" "ys \<noteq> []" "0 < n"
  shows "Max (f ` set (take n ys)) = Max (f ` set ys)"
proof -
  have s: "sorted (map (\<lambda>a. - f a) (take n ys))"
    using assms(1) by (simp add: take_map [symmetric] sorted_wrt_take)
  have ne: "take n ys \<noteq> []" using assms(2,3) by simp
  have "hd (take n ys) = hd ys" using assms(3) by simp
  then show ?thesis
    using sorted_desc_hd_Max [OF s ne] sorted_desc_hd_Max [OF assms(1,2)] by simp
qed

lemma elitistReplacement_best:
  assumes "parents \<noteq> []" "populationSize (config ga) \<ge> 1"
  shows "maxFitness (elitistReplacement ga parents offspring) = maxFitness (parents @ offspring)"
proof -
  let ?ys = "sortByFitness (parents @ offspring)"
  have s: "sorted (map (\<lambda>a. - ind_fitness a) ?ys)" by (simp add: sortByFitness_def)
  have set: "set ?ys = set (parents @ offspring)" by (simp add: sortByFitness_def)
  have ne: "?ys \<noteq> []" using assms(1) set by (metis Nil_is_append_conv set_empty)
  have n: "0 < nat (populationSize (config ga))" using assms(2) by simp
  have e: "elitistReplacement ga parents offspring = take (nat (populationSize (config ga))) ?ys"
    using assms(2) by (simp add: elitistReplacement_def slice0_def)
  have ne2: "take (nat (populationSize (config ga))) ?ys \<noteq> []" using ne n by simp
  show ?thesis
    unfolding e
    using Max_take_sorted_desc [OF s ne n] maxFitness_Max [OF ne2] maxFitness_Max [of "parents @ offspring"] assms(1) set
    by simp
qed

subsection \<open>Spacing at placement\<close>













text \<open>Evaluation of the placement loops on tomato plants (size 1 square metre, so 1 m by 1 m boxes and
  radius 0.5 m) with an empty compatibility matrix.\<close>

lemma sqrt_sq: "0 \<le> y \<Longrightarrow> sqrt (y * y) = (y::real)"
  by simp







lemma tomato_new:
  "0 \<le> x \<Longrightarrow> 0 \<le> y \<Longrightarrow>
   ebind (Position_new x y) (\<lambda>pos. ebind (PlantInstance_new tomate pos None None None) f) = f (tomateAt x y)"
  by (simp add: Position_new_def PlantInstance_new_def ebind_def tomateAt_def Let_def)
     (simp add: tomate_def)



lemma tomato_facts:
  "plant_size tomate = 1" "inst_totalArea (tomateAt x y) = 1" "inst_totalWeeklyWater (tomateAt x y) = 80"
  "inst_totalCost (tomateAt x y) = 50" "width (tomateAt x y) = 1" "height (tomateAt x y) = 1"
  "plant (tomateAt x y) = tomate" "rotation (tomateAt x y) = 0"
  by (simp_all add: tomate_def tomateAt_def inst_totalArea_def inst_totalWeeklyWater_def
      inst_totalCost_def estimatedCost_def)






lemma init_instances_numeral:
  "init_instances ga cons w h p (numeral n) acc c = init_instances ga cons w h p (Suc (pred_numeral n)) acc c"
  by (simp add: numeral_eq_Suc)



lemma toDouble_exact: "\<bar>n\<bar> \<le> 2 ^ 53 \<Longrightarrow> toDouble n = n"
  by (simp add: toDouble_def)

lemma lcg_step_exact:
  assumes "0 \<le> x" "x * 9301 + 49297 \<le> 2 ^ 53"
  shows "toDouble (toDouble (x * 9301) + 49297) smod 233280 = (x * 9301 + 49297) mod 233280"
proof -
  have a: "toDouble (x * 9301) = x * 9301" using assms by (intro toDouble_exact) simp
  have b: "toDouble (x * 9301 + 49297) = x * 9301 + 49297"
    using assms by (intro toDouble_exact) simp
  have p: "0 \<le> x * 9301 + 49297" using assms by simp
  show ?thesis unfolding a b using p by (simp add: smod_int_alt_def sgn_if)
qed













lemma required_tomatoes: "GA_requiredDistance Map.empty tomate tomate = 11 / 5"
  by (simp add: GA_requiredDistance_def spec_lookup_def get2_def GA_minDistance_def tomato_facts)







subsection \<open>The seeded generator\<close>

lemma lcg_small:
  assumes "0 \<le> s" "s * 9301 + 49297 \<le> 2 ^ 53"
  shows "0 \<le> lcg_state s n \<and> lcg_state s n * 9301 + 49297 \<le> 2 ^ 53"
proof (induction n)
  case 0
  then show ?case using assms by simp
next
  case (Suc n)
  have e: "lcg_state s (Suc n) = (lcg_state s n * 9301 + 49297) mod 233280"
    using Suc by (simp add: lcg_step_exact)
  have "0 \<le> lcg_state s (Suc n)" "lcg_state s (Suc n) < 233280"
    unfolding e by simp_all
  then show ?case by simp
qed

lemma lcg_range:
  assumes "0 \<le> s" "s * 9301 + 49297 \<le> 2 ^ 53"
  shows "0 \<le> lcg_state s (Suc n)" "lcg_state s (Suc n) < 233280"
    "lcg_state s (Suc n) = (lcg_state s n * 9301 + 49297) mod 233280"
proof -
  show e: "lcg_state s (Suc n) = (lcg_state s n * 9301 + 49297) mod 233280"
    using lcg_small [OF assms, of n] by (simp add: lcg_step_exact)
  show "0 \<le> lcg_state s (Suc n)" "lcg_state s (Suc n) < 233280"
    unfolding e by simp_all
qed

lemma seeded_range:
  assumes "0 \<le> s" "s * 9301 + 49297 \<le> 2 ^ 53"
  shows "0 \<le> seededRandom s n" "seededRandom s n < 1"
  using lcg_range [OF assms, of n] by (simp_all add: seededRandom_def)


subsection \<open>A run on the tomato catalogue\<close>

lemma gaX_simps:
  "rng gaX = seededRandom 42" "selectedPlants gaX = [tomate]"
  "config gaX = exampleGAConfig" "fitnessCalculator gaX = vegConfig"
  by (simp_all add: gaX_def gaX0_def GeneticAlgorithm_new_def exampleGAConfig_def)

lemma rngX: "0 \<le> rng gaX n" "rng gaX n < 1"
  using seeded_range [of 42 n] by (simp_all add: gaX_simps)

lemma selectX: "selectPlantsIntelligently gaX0 consX Alimenticio = [tomate]"
  by (simp add: selectPlantsIntelligently_def gaX0_def GeneticAlgorithm_new_def
      exampleGAConfig_def consX_def selectBestPlants_def filterBySeason_def
      filterByUserPreferences_def Let_def sortByScore_def greedySelection_def
      checkCompatibilityWithSelected_def scorePlant_def)

lemma draw_position:
  assumes "2 \<le> w"
  shows "0 \<le> 1 + rng gaX n * (w - 2)" "1 + rng gaX n * (w - 2) + 1 \<le> w"
proof -
  have a: "0 \<le> rng gaX n * (w - 2)" using rngX(1) [of n] assms by simp
  then show "0 \<le> 1 + rng gaX n * (w - 2)" by simp
  have "rng gaX n * (w - 2) \<le> 1 * (w - 2)"
    using rngX(2) [of n] assms by (intro mult_right_mono) simp_all
  then show "1 + rng gaX n * (w - 2) + 1 \<le> w" by simp
qed

lemma place_fail:
  assumes "2 \<le> w" "2 \<le> h"
  shows "place_attempts gaX consX w h tomate k emptyPlacement c = Inr (emptyPlacement, c + 2 * k)"
proof (induction k arbitrary: c)
  case 0
  then show ?case by simp
next
  case (Suc k)
  have b: "\<not> withinBudget consX (p_usedBudget emptyPlacement + 50)"
    by (simp add: withinBudget_def consX_def emptyPlacement_def)
  show ?case
    unfolding place_attempts.simps
    using draw_position(1) [OF assms(1), of c] draw_position(1) [OF assms(2), of "Suc c"] b
    by (simp add: tomato_facts tomato_new Let_def Suc.IH)
qed

lemma init_instances_fail:
  assumes "2 \<le> w" "2 \<le> h"
  shows "init_instances gaX consX w h tomate n emptyPlacement c = Inr (emptyPlacement, c + 100 * n)"
  by (induction n arbitrary: c) (simp_all add: place_fail [OF assms] ebind_def)

lemma half_bound: "2 \<le> (w::real) \<Longrightarrow> w \<le> 8 \<Longrightarrow> 2 \<le> 16 / w"
  by (simp add: pos_le_divide_eq)

lemma area_bound: "2 \<le> (w::real) \<Longrightarrow> w * (16 / w) = 16"
  by simp

lemma init_plants_fail:
  assumes "2 \<le> w" "2 \<le> h"
  shows "init_plants gaX consX w h [tomate] emptyPlacement cc
      = Inr (emptyPlacement, Suc cc + 100 * nat (1 + \<lfloor>rng gaX cc * 2\<rfloor>))"
  by (simp add: init_instances_fail [OF assms] ebind_def Let_def)

lemma dims_ok:
  "2 \<le> w \<Longrightarrow> 2 \<le> h \<Longrightarrow> Dimensions_new w h = Inr \<lparr>dim_width = w, dim_height = h\<rparr>"
  by (simp add: Dimensions_new_def)

lemma emptyShape_new:
  "2 \<le> w \<Longrightarrow> 2 \<le> h \<Longrightarrow> w * h = 16 \<Longrightarrow>
   emptyShape (Individual_new \<lparr>dim_width = w, dim_height = h\<rparr> (plantInstances emptyPlacement))"
  by (simp add: emptyShape_def Individual_new_def emptyPlacement_def)

lemma createSmartIndividual_unfold:
  assumes "\<not> maxArea cons * (0.6 + rng ga c * 0.8) < 0"
    and "Dimensions_new (sqrt (maxArea cons * (0.6 + rng ga c * 0.8)))
           (maxArea cons / sqrt (maxArea cons * (0.6 + rng ga c * 0.8))) = Inr d"
    and "shuffleArray (rng ga) (selectedPlants ga) (Suc (Suc c)) = Inr (sh, c1)"
    and "init_plants ga cons (sqrt (maxArea cons * (0.6 + rng ga c * 0.8)))
           (maxArea cons / sqrt (maxArea cons * (0.6 + rng ga c * 0.8)))
           (slice0 (min (int (length (selectedPlants ga)))
                      (2 + \<lfloor>rng ga (Suc c) * real_of_int (maxSpecies (config ga) - 1)\<rfloor>)) sh)
           emptyPlacement c1 = Inr (acc, c2)"
  shows "createSmartIndividual ga cons c = Inr (Individual_new d (plantInstances acc), c2)"
  unfolding createSmartIndividual_def Let_def
  by (simp only: assms ebind_def if_False sum.case fst_conv snd_conv)

lemma create_empty:
  "\<exists>e c'. createSmartIndividual gaX consX c = Inr (e, c') \<and> emptyShape e \<and> metrics e = None"
proof -
  let ?a = "0.6 + rng gaX c * 0.8"
  let ?w = "sqrt (maxArea consX * ?a)"
  have m: "maxArea consX = 16" by (simp add: consX_def)
  have a: "3 / 5 \<le> ?a" "?a \<le> 7 / 5" using rngX [of c] by simp_all
  have w2: "2 \<le> ?w"
    unfolding m using a by (intro real_le_rsqrt) (simp add: power2_eq_square)
  have w8: "?w \<le> 8"
    unfolding m using a by (intro real_le_lsqrt) (simp_all add: power2_eq_square)
  have h2: "2 \<le> maxArea consX / ?w" using w2 w8 unfolding m by (rule half_bound)
  have area: "?w * (maxArea consX / ?w) = 16" using w2 unfolding m by (rule area_bound)
  have nn: "\<not> maxArea consX * ?a < 0" using a by (simp add: m)
  have d: "Dimensions_new ?w (maxArea consX / ?w) = Inr \<lparr>dim_width = ?w, dim_height = maxArea consX / ?w\<rparr>"
    using w2 h2 by (rule dims_ok)
  have sh: "shuffleArray (rng gaX) (selectedPlants gaX) (Suc (Suc c)) = Inr ([tomate], Suc (Suc c))"
    by (simp add: gaX_simps(2) shuffleArray_def)
  have ns: "slice0 (min (int (length (selectedPlants gaX)))
                      (2 + \<lfloor>rng gaX (Suc c) * real_of_int (maxSpecies (config gaX) - 1)\<rfloor>)) [tomate]
            = [tomate]"
  proof -
    have "0 \<le> \<lfloor>rng gaX (Suc c) * 2\<rfloor>" using rngX(1) [of "Suc c"] by simp
    then show ?thesis
      by (simp add: gaX_simps(2,3) exampleGAConfig_def slice0_def min_def)
  qed
  have ip: "init_plants gaX consX ?w (maxArea consX / ?w) [tomate] emptyPlacement (Suc (Suc c))
      = Inr (emptyPlacement, Suc (Suc (Suc c)) + 100 * nat (1 + \<lfloor>rng gaX (Suc (Suc c)) * 2\<rfloor>))"
    using w2 h2 by (rule init_plants_fail)
  have "createSmartIndividual gaX consX c
      = Inr (Individual_new \<lparr>dim_width = ?w, dim_height = maxArea consX / ?w\<rparr> (plantInstances emptyPlacement),
             Suc (Suc (Suc c)) + 100 * nat (1 + \<lfloor>rng gaX (Suc (Suc c)) * 2\<rfloor>))"
    by (rule createSmartIndividual_unfold [OF nn d sh]) (simp only: ns ip)
  moreover have "emptyShape (Individual_new \<lparr>dim_width = ?w, dim_height = maxArea consX / ?w\<rparr>
      (plantInstances emptyPlacement))"
    using w2 h2 area by (rule emptyShape_new)
  ultimately show ?thesis by (auto simp: Individual_new_def)
qed

lemma init_population_empty:
  "\<exists>pop c'. init_population gaX consX n c = Inr (pop, c') \<and> length pop = n
      \<and> list_all (\<lambda>e. emptyShape e \<and> metrics e = None) pop"
proof (induction n arbitrary: c)
  case 0
  then show ?case by simp
next
  case (Suc n)
  obtain e c1 where e: "createSmartIndividual gaX consX c = Inr (e, c1)" "emptyShape e" "metrics e = None"
    using create_empty by blast
  obtain pop c2 where p: "init_population gaX consX n c1 = Inr (pop, c2)" "length pop = n"
      "list_all (\<lambda>e. emptyShape e \<and> metrics e = None) pop"
    using Suc.IH by blast
  show ?case using e p by (simp add: ebind_def)
qed


lemma calculate_empty:
  assumes "emptyShape e"
  shows "calculate vegConfig e = Inr emptyMetrics"
proof -
  have p: "plants e = []" and a: "dim_totalArea (dimensions e) = 16"
    using assms by (simp_all add: emptyShape_def dim_totalArea_def)
  have cee: "calculateCEE vegConfig e = 1" by (simp add: calculateCEE_def p)
  have cd: "calculateCategoryDistribution e
      = Inr \<lparr>vegetable = Num 25, medicinal = Num 25, ornamental = Num 25, aromatic = Num 25\<rparr>"
    by (simp add: calculateCategoryDistribution_def countPlants_def countsTotal_def p
        CategoryDistribution_new_def someData_def orZero_def Let_def)
  have ps: "calculatePSRNT vegConfig e = Inr (Num (max 0 (1 - sqrt 1875 / 100)))"
    by (simp add: calculatePSRNT_def vegConfig_def vegOnly_def cd Let_def)
  have eh: "calculateEH vegConfig e = 0"
    by (simp add: calculateEH_def totalWeeklyWater_def p vegConfig_def EH_curve_def)
  have ue: "calculateUE e = 0"
    by (simp add: calculateUE_def usedArea_def p a)
  have "0 \<le> sqrt 1875" by simp
  then have r: "\<not> max 0 (1 - sqrt 1875 / 100) < 0" "\<not> 1 < max 0 (1 - sqrt 1875 / 100)"
    by linarith+
  have ob: "OBJECTIVE_WEIGHTS (objective vegConfig) = OBJECTIVE_WEIGHTS Alimenticio"
    by (simp add: vegConfig_def)
  show ?thesis
    unfolding calculate_def cee ps eh ue ob Let_def
    using r
    by (simp add: Metrics_new_def ebind_def validateMetric_def calculateFitness_def emptyMetrics_def)
qed

lemma calculate_tomato:
  assumes "tomatoShape i"
  shows "calculate vegConfig i = Inr tomatoMetrics"
proof -
  obtain x y where p: "plants i = [tomateAt x y]" and a: "dim_totalArea (dimensions i) = 16"
    using assms by (auto simp: tomatoShape_def dim_totalArea_def)
  have cee: "calculateCEE vegConfig i = 1" by (simp add: calculateCEE_def p)
  have cd: "calculateCategoryDistribution i
      = Inr \<lparr>vegetable = Num 100, medicinal = Num 0, ornamental = Num 0, aromatic = Num 0\<rparr>"
    by (simp add: calculateCategoryDistribution_def countPlants_def countsTotal_def p tomato_facts
        CategoryDistribution_new_def someData_def orZero_def Let_def)
       (simp add: tomate_def countType_def)
  have ps: "calculatePSRNT vegConfig i = Inr (Num 1)"
    by (simp add: calculatePSRNT_def vegConfig_def vegOnly_def cd Let_def)
  have eh: "calculateEH vegConfig i = 1"
    by (simp add: calculateEH_def totalWeeklyWater_def p tomato_facts vegConfig_def EH_curve_def)
  have ue: "calculateUE i = 5 / 56"
    by (simp add: calculateUE_def usedArea_def p tomato_facts a)
  have ob: "OBJECTIVE_WEIGHTS (objective vegConfig) = OBJECTIVE_WEIGHTS Alimenticio"
    by (simp add: vegConfig_def)
  show ?thesis
    unfolding calculate_def cee ps eh ue ob Let_def
    by (simp add: Metrics_new_def ebind_def validateMetric_def calculateFitness_def tomatoMetrics_def)
qed

lemma fitness_gap: "fitness emptyMetrics + 0.001 < fitness tomatoMetrics"
proof -
  have "43 \<le> sqrt 1875" by (rule real_le_rsqrt) simp
  then have "max 0 (1 - sqrt 1875 / 100) \<le> 57 / 100" by linarith
  then show ?thesis by (simp add: emptyMetrics_def tomatoMetrics_def)
qed

lemma evaluate_all_shape:
  assumes "list_all P pop" and "\<And>i. P i \<Longrightarrow> calculate fc i = Inr m"
  shows "evaluate_all fc pop = Inr (map (\<lambda>i. i\<lparr>metrics := Some m\<rparr>) pop)"
  using assms(1)
  by (induction pop) (simp_all add: assms(2) ebind_def)


lemma floor_index:
  assumes "0 \<le> r" "r < 1" "0 < n"
  shows "0 \<le> \<lfloor>r * real n\<rfloor>" "\<lfloor>r * real n\<rfloor> < int n"
proof -
  show "0 \<le> \<lfloor>r * real n\<rfloor>" using assms by simp
  have "r * real n < real n" using assms by simp
  then show "\<lfloor>r * real n\<rfloor> < int n" by (simp add: floor_less_iff)
qed

lemma tournament_rounds_X:
  assumes "pop \<noteq> []" "list_all P pop"
  shows "\<exists>sel. tournament_rounds gaX pop n c = Inr (sel, c + n) \<and> length sel = n
           \<and> list_all (\<lambda>s. \<exists>e. s = Some e \<and> P e) sel"
proof (induction n arbitrary: c)
  case 0
  then show ?case by simp
next
  case (Suc n)
  have k: "nat (tournamentK (config gaX)) = Suc 0"
    by (simp add: gaX_simps(3) exampleGAConfig_def)
  let ?i = "\<lfloor>rng gaX c * real (length pop)\<rfloor>"
  have i: "0 \<le> ?i" "?i < int (length pop)"
    using floor_index [OF rngX, of "length pop" c] assms(1) by simp_all
  then have "nat ?i < length pop" by linarith
  then have "P (pop ! nat ?i)" using assms(2) by (simp add: list_all_length)
  moreover obtain sel where "tournament_rounds gaX pop n (Suc c) = Inr (sel, Suc c + n)"
    "length sel = n" "list_all (\<lambda>s. \<exists>e. s = Some e \<and> P e) sel"
    using Suc.IH by blast
  ultimately show ?case
    using i by (simp add: k Let_def tournament_winner_def ebind_def)
qed

lemma clone_id: "clone i = i"
  by (simp add: clone_def)

lemma reproduce_X: "reproduce gaX [Some a, Some b] c = Inr ([a, b], Suc c)"
  using rngX(1) [of c]
  by (simp add: gaX_simps(3) exampleGAConfig_def clone_id ebind_def Let_def)

lemma insert_attempts_first:
  assumes "emptyShape e"
  shows "insert_attempts gaX consX e tomate (Suc k) c
      = Inr (e\<lparr>plants := [tomateAt (1 + rng gaX c * (dim_width (dimensions e) - 2))
                                   (1 + rng gaX (Suc c) * (dim_height (dimensions e) - 2))]\<rparr>,
             Suc (Suc c))"
proof -
  have p: "plants e = []" and w: "2 \<le> dim_width (dimensions e)" and h: "2 \<le> dim_height (dimensions e)"
    using assms by (simp_all add: emptyShape_def)
  have u: "usedArea e = 0" "totalWeeklyWater e = 0"
    by (simp_all add: usedArea_def totalWeeklyWater_def p)
  have m: "maxArea consX = 16" "gc_maxWaterWeekly consX = 100" by (simp_all add: consX_def)
  show ?thesis
    unfolding insert_attempts.simps
    using draw_position [OF w, of c] draw_position [OF h, of "Suc c"]
    by (simp add: tomato_facts tomato_new Let_def p u m hasCollision_def)
qed

lemma insert_X:
  assumes "emptyShape e"
  shows "\<exists>i. insertMutation gaX consX e c = Inr (i, Suc (Suc (Suc c))) \<and> tomatoShape i"
proof -
  have p: "plants e = []" and a: "dim_width (dimensions e) * dim_height (dimensions e) = 16"
    using assms by (simp_all add: emptyShape_def)
  have "\<lfloor>rng gaX c\<rfloor> = 0" using rngX [of c] by (simp add: floor_eq_iff)
  then have "insertMutation gaX consX e c = insert_attempts gaX consX e tomate 30 (Suc c)"
    by (simp add: insertMutation_def p gaX_simps(2,3) exampleGAConfig_def)
  moreover have "insert_attempts gaX consX e tomate 30 (Suc c)
      = Inr (e\<lparr>plants := [tomateAt (1 + rng gaX (Suc c) * (dim_width (dimensions e) - 2))
                                   (1 + rng gaX (Suc (Suc c)) * (dim_height (dimensions e) - 2))]\<rparr>,
             Suc (Suc (Suc c)))"
    using insert_attempts_first [OF assms, of 29 "Suc c"] by simp
  ultimately show ?thesis
    using a by (auto simp: tomatoShape_def)
qed

lemma mutate_X:
  assumes "emptyShape e"
  shows "\<exists>i c'. mutate gaX consX e c = Inr (i, c') \<and> tomatoShape i"
proof -
  obtain i where i: "insertMutation gaX consX e (Suc (Suc c)) = Inr (i, Suc (Suc (Suc (Suc (Suc c)))))"
    and t: "tomatoShape i"
    using insert_X [OF assms] by blast
  have r: "mutationRate (config gaX) = 0" "insertionRate (config gaX) = 1"
    "deletionRate (config gaX) = 0"
    by (simp_all add: gaX_simps(3) exampleGAConfig_def)
  have n: "\<not> rng gaX n < 0" for n using rngX(1) [of n] by simp
  show ?thesis
    using t by (simp add: mutate_def r n rngX(2) i ebind_def Let_def)
qed

lemma mutate_all_X:
  assumes "list_all emptyShape xs"
  shows "\<exists>os c'. mutate_all gaX consX xs c = Inr (os, c') \<and> length os = length xs
           \<and> list_all tomatoShape os"
  using assms
proof (induction xs arbitrary: c)
  case Nil
  then show ?case by simp
next
  case (Cons e xs)
  obtain i c1 where i: "mutate gaX consX e c = Inr (i, c1)" "tomatoShape i"
    using mutate_X [of e c] Cons.prems by auto
  obtain os c2 where os: "mutate_all gaX consX xs c1 = Inr (os, c2)" "length os = length xs"
      "list_all tomatoShape os"
    using Cons.IH [of c1] Cons.prems by auto
  show ?case using i os by (simp add: ebind_def)
qed


lemma shape_update:
  "emptyShape i \<Longrightarrow> evalEmpty (i\<lparr>metrics := Some emptyMetrics\<rparr>)"
  "tomatoShape i \<Longrightarrow> evalTomato (i\<lparr>metrics := Some tomatoMetrics\<rparr>)"
  by (simp_all add: evalEmpty_def evalTomato_def emptyShape_def tomatoShape_def)

lemma sort_four:
  assumes "evalEmpty a" "evalEmpty b" "evalTomato i" "evalTomato j"
  shows "sortByFitness ([a, b] @ [i, j]) = [i, j, a, b]"
proof -
  have f: "ind_fitness a = fitness emptyMetrics" "ind_fitness b = fitness emptyMetrics"
    "ind_fitness i = fitness tomatoMetrics" "ind_fitness j = fitness tomatoMetrics"
    using assms by (simp_all add: evalEmpty_def evalTomato_def ind_fitness_def)
  show ?thesis
    using fitness_gap by (simp add: sortByFitness_def f)
qed

lemma sort_two:
  assumes "ind_fitness a = ind_fitness b"
  shows "sortByFitness [a, b] = [a, b]"
  using assms by (simp add: sortByFitness_def)

lemma generationStep_unfold:
  assumes "tournamentSelection ga (population st) (calls st) = Inr (sel, c1)"
    and "reproduce ga sel c1 = Inr (off0, c2)"
    and "mutate_all ga cons off0 c2 = Inr (off1, c3)"
    and "evaluate_all (fitnessCalculator ga) off1 = Inr offspring"
  shows "\<exists>st'. generationStep ga cons g st = Inr st'
           \<and> population st' = elitistReplacement ga (population st) offspring
           \<and> generationsWithoutImprovement st' \<le> Suc (generationsWithoutImprovement st)"
  unfolding generationStep_def
  by (simp add: assms ebind_def Let_def)

lemma generation_X:
  assumes "population st = [a, b]" "evalEmpty a" "evalEmpty b"
  shows "\<exists>st' i j. generationStep gaX consX g st = Inr st' \<and> population st' = [i, j]
           \<and> evalTomato i \<and> evalTomato j
           \<and> generationsWithoutImprovement st' \<le> Suc (generationsWithoutImprovement st)"
proof -
  have ne: "[a, b] \<noteq> []" and all: "list_all evalEmpty [a, b]" using assms by simp_all
  obtain sel where s: "tournamentSelection gaX (population st) (calls st) = Inr (sel, calls st + 2)"
    and l: "length sel = 2" and sp: "list_all (\<lambda>s. \<exists>e. s = Some e \<and> evalEmpty e) sel"
    using tournament_rounds_X [OF ne all, of 2 "calls st"]
    by (auto simp: tournamentSelection_def gaX_simps(3) exampleGAConfig_def assms(1))
  from l sp obtain p q where sel: "sel = [Some p, Some q]" and pq: "evalEmpty p" "evalEmpty q"
    by (cases sel; cases "tl sel") auto
  have r: "reproduce gaX sel (calls st + 2) = Inr ([p, q], Suc (calls st + 2))"
    unfolding sel by (rule reproduce_X)
  have "list_all emptyShape [p, q]" using pq by (simp add: evalEmpty_def)
  then obtain os c' where m: "mutate_all gaX consX [p, q] (Suc (calls st + 2)) = Inr (os, c')"
    and lo: "length os = length [p, q]" and to: "list_all tomatoShape os"
    using mutate_all_X by blast
  from lo to obtain i j where os: "os = [i, j]" and ij: "tomatoShape i" "tomatoShape j"
    by (cases os; cases "tl os") auto
  let ?i = "i\<lparr>metrics := Some tomatoMetrics\<rparr>" and ?j = "j\<lparr>metrics := Some tomatoMetrics\<rparr>"
  have ev: "evaluate_all (fitnessCalculator gaX) os = Inr [?i, ?j]"
    using ij by (simp add: calculate_tomato ebind_def gaX_simps(4) os)
  have t: "evalTomato ?i" "evalTomato ?j" using ij shape_update(2) by simp_all
  have el: "elitistReplacement gaX [a, b] [?i, ?j] = [?i, ?j]"
    unfolding elitistReplacement_def Let_def sort_four [OF assms(2,3) t]
    by (simp add: slice0_def gaX_simps(3) exampleGAConfig_def)
  from generationStep_unfold [OF s r m ev, of g]
  show ?thesis unfolding assms(1) el using t by blast
qed

lemma top_of_two:
  assumes "ind_fitness a = ind_fitness b"
  shows "slice0 3 (sortByFitness [a, b]) = [a, b]"
  by (simp add: sort_two [OF assms] slice0_def)

lemma run_prefix:
  "\<exists>a b st0. evalEmpty a \<and> evalEmpty b \<and> population st0 = [a, b]
     \<and> generationsWithoutImprovement st0 = 0
     \<and> (\<forall>clock. run gaX0 consX Alimenticio clock
          = ebind (run_loop gaX consX (atGeneration clock) (Suc 0) 0 st0)
              (\<lambda>fin. let top = slice0 3 (sortByFitness (population (fst fin)))
                      in if top = [] then Inl TypeError
                         else Inr \<lparr>topSolutions = top,
                                  generations = length (generationStats (fst fin)) * 10,
                                  convergenceGeneration = length (generationStats (fst fin)) * 10,
                                  stoppingReason = snd fin,
                                  executionTimeMs = atEnd clock,
                                  res_generationStats = generationStats (fst fin),
                                  res_selectedPlants = selectedPlants gaX\<rparr>))"
proof -
  obtain pop c where i: "init_population gaX consX 2 0 = Inr (pop, c)" and l: "length pop = 2"
    and sh: "list_all (\<lambda>e. emptyShape e \<and> metrics e = None) pop"
    using init_population_empty [of 2 0] by blast
  from l obtain a b where pop: "pop = [a, b]" by (cases pop; cases "tl pop") auto
  have ab: "emptyShape a" "emptyShape b" using sh pop by simp_all
  let ?a = "a\<lparr>metrics := Some emptyMetrics\<rparr>" and ?b = "b\<lparr>metrics := Some emptyMetrics\<rparr>"
  have ev: "evaluate_all (fitnessCalculator gaX) pop = Inr [?a, ?b]"
    using ab by (simp add: pop calculate_empty ebind_def gaX_simps(4))
  have ini: "initializePopulationHeuristic gaX consX 0 = Inr (pop, c)"
    using i by (simp add: initializePopulationHeuristic_def gaX_simps(3) exampleGAConfig_def)
  have g: "gaX0\<lparr>selectedPlants := selectPlantsIntelligently gaX0 consX Alimenticio\<rparr> = gaX"
    by (simp add: selectX gaX_def)
  have n: "nat (maxGenerations (config gaX)) = Suc 0"
    by (simp add: gaX_simps(3) exampleGAConfig_def)
  let ?st0 = "\<lparr>population = [?a, ?b], bestFitness = maxFitness [?a, ?b],
                   generationsWithoutImprovement = 0, generationStats = [], calls = c\<rparr>"
  have "run gaX0 consX Alimenticio clock
          = ebind (run_loop gaX consX (atGeneration clock) (Suc 0) 0 ?st0)
              (\<lambda>fin. let top = slice0 3 (sortByFitness (population (fst fin)))
                      in if top = [] then Inl TypeError
                         else Inr \<lparr>topSolutions = top,
                                  generations = length (generationStats (fst fin)) * 10,
                                  convergenceGeneration = length (generationStats (fst fin)) * 10,
                                  stoppingReason = snd fin,
                                  executionTimeMs = atEnd clock,
                                  res_generationStats = generationStats (fst fin),
                                  res_selectedPlants = selectedPlants gaX\<rparr>)" for clock
    unfolding run_def Let_def g ini n
    by (simp add: ebind_def ev del: run_loop.simps)
  moreover have "evalEmpty ?a" "evalEmpty ?b" using ab shape_update(1) by simp_all
  ultimately show ?thesis
    by (intro exI [of _ ?a] exI [of _ ?b] exI [of _ ?st0]) simp
qed


lemma timedOut_X:
  "timedOut (config gaX) (atGeneration clockSlow g)" "\<not> timedOut (config gaX) (atGeneration clockFast g)"
  by (simp_all add: timedOut_def gaX_simps(3) exampleGAConfig_def clockSlow_def clockFast_def)

lemma equal_fitness:
  "evalEmpty a \<Longrightarrow> evalEmpty b \<Longrightarrow> ind_fitness a = ind_fitness b"
  "evalTomato i \<Longrightarrow> evalTomato j \<Longrightarrow> ind_fitness i = ind_fitness j"
  by (simp_all add: evalEmpty_def evalTomato_def ind_fitness_def)

lemma run_slow:
  "\<exists>a b res. run gaX0 consX Alimenticio clockSlow = Inr res \<and> topSolutions res = [a, b]
     \<and> plants a = []"
proof -
  obtain a b st0 where ab: "evalEmpty a" "evalEmpty b" and p: "population st0 = [a, b]"
    and r: "run gaX0 consX Alimenticio clockSlow
          = ebind (run_loop gaX consX (atGeneration clockSlow) (Suc 0) 0 st0)
              (\<lambda>fin. let top = slice0 3 (sortByFitness (population (fst fin)))
                      in if top = [] then Inl TypeError
                         else Inr \<lparr>topSolutions = top,
                                  generations = length (generationStats (fst fin)) * 10,
                                  convergenceGeneration = length (generationStats (fst fin)) * 10,
                                  stoppingReason = snd fin,
                                  executionTimeMs = atEnd clockSlow,
                                  res_generationStats = generationStats (fst fin),
                                  res_selectedPlants = selectedPlants gaX\<rparr>)"
    using run_prefix by blast
  have l: "run_loop gaX consX (atGeneration clockSlow) (Suc 0) 0 st0 = Inr (st0, Timeout)"
    by (simp add: timedOut_X(1))
  have "plants a = []" using ab(1) by (simp add: evalEmpty_def emptyShape_def)
  then show ?thesis
    unfolding r l by (simp add: ebind_def p top_of_two [OF equal_fitness(1) [OF ab]])
qed

lemma variance_equal: "calculateVariance [f, f] = 0"
  by (simp add: calculateVariance_def)

lemma run_loop_fast:
  assumes "population st0 = [a, b]" "evalEmpty a" "evalEmpty b"
    and "generationsWithoutImprovement st0 = 0"
  shows "\<exists>st' i j. run_loop gaX consX (atGeneration clockFast) (Suc 0) 0 st0 = Inr (st', MaxGenerations)
           \<and> population st' = [i, j] \<and> evalTomato i \<and> evalTomato j"
proof -
  obtain st' i j where g: "generationStep gaX consX 0 st0 = Inr st'" and p': "population st' = [i, j]"
    and ij: "evalTomato i" "evalTomato j"
    and w: "generationsWithoutImprovement st' \<le> Suc (generationsWithoutImprovement st0)"
    using generation_X [OF assms(1-3), of 0] by blast
  have pat: "\<not> patience (config gaX) \<le> int (generationsWithoutImprovement st')"
    using w assms(4) by (simp add: gaX_simps(3) exampleGAConfig_def)
  have var: "\<not> calculateVariance (map ind_fitness (population st')) < convergenceThreshold (config gaX)"
    by (simp add: p' equal_fitness(2) [OF ij] variance_equal gaX_simps(3) exampleGAConfig_def)
  have "run_loop gaX consX (atGeneration clockFast) (Suc 0) 0 st0 = Inr (st', MaxGenerations)"
    using pat var by (simp add: timedOut_X(2) g ebind_def)
  then show ?thesis using p' ij by blast
qed

lemma run_fast:
  "\<exists>i j res. run gaX0 consX Alimenticio clockFast = Inr res \<and> topSolutions res = [i, j]
     \<and> plants i \<noteq> []"
proof -
  obtain a b st0 where ab: "evalEmpty a" "evalEmpty b" and p: "population st0 = [a, b]"
    and z: "generationsWithoutImprovement st0 = 0"
    and r: "run gaX0 consX Alimenticio clockFast
          = ebind (run_loop gaX consX (atGeneration clockFast) (Suc 0) 0 st0)
              (\<lambda>fin. let top = slice0 3 (sortByFitness (population (fst fin)))
                      in if top = [] then Inl TypeError
                         else Inr \<lparr>topSolutions = top,
                                  generations = length (generationStats (fst fin)) * 10,
                                  convergenceGeneration = length (generationStats (fst fin)) * 10,
                                  stoppingReason = snd fin,
                                  executionTimeMs = atEnd clockFast,
                                  res_generationStats = generationStats (fst fin),
                                  res_selectedPlants = selectedPlants gaX\<rparr>)"
    using run_prefix by blast
  obtain st' i j where l: "run_loop gaX consX (atGeneration clockFast) (Suc 0) 0 st0 = Inr (st', MaxGenerations)"
    and p': "population st' = [i, j]" and ij: "evalTomato i" "evalTomato j"
    using run_loop_fast [OF p ab z] by blast
  have "plants i \<noteq> []" using ij(1) by (auto simp: evalTomato_def tomatoShape_def)
  then show ?thesis
    unfolding r l by (simp add: ebind_def p' top_of_two [OF equal_fitness(2) [OF ij]])
qed


subsection \<open>Reproducibility\<close>

text \<open>
  Claim C8, as stated: with a fixed seed and identical catalogue, matrix, constraints,
  objective and configuration, two runs produce identical \<open>topSolutions\<close>. The
  configuration \<open>exampleGAConfig\<close> has seed 42 and a timeout of 1 ms. The run whose first
  timeout check reads 5 ms stops before the first generation and returns the two empty
  layouts of the initial population; the run whose check reads 0 ms completes the
  generation, in which the insert mutation gives each offspring a tomato, and returns these
  two offspring.
\<close>

theorem C8_timeout_counterexample:
  "topSolutionsOf (run gaX0 consX Alimenticio clockFast)
     \<noteq> topSolutionsOf (run gaX0 consX Alimenticio clockSlow)"
proof -
  obtain a b r1 where s: "run gaX0 consX Alimenticio clockSlow = Inr r1" "topSolutions r1 = [a, b]"
    "plants a = []"
    using run_slow by blast
  obtain i j r2 where f: "run gaX0 consX Alimenticio clockFast = Inr r2" "topSolutions r2 = [i, j]"
    "plants i \<noteq> []"
    using run_fast by blast
  show ?thesis using s f by (auto simp: topSolutionsOf_def)
qed

lemma run_loop_clock:
  assumes "\<forall>g. timedOut (config ga) (e1 g) = timedOut (config ga) (e2 g)"
  shows "run_loop ga cons e1 k g st = run_loop ga cons e2 k g st"
proof (induction k arbitrary: g st)
  case 0
  then show ?case by simp
next
  case (Suc k)
  have t: "timedOut (config ga) (e1 g) = timedOut (config ga) (e2 g)" using assms by simp
  show ?case
    by (cases "generationStep ga cons g st") (simp_all add: t ebind_def Suc.IH)
qed

lemma run_clock:
  assumes "\<forall>g. timedOut (config ga) (atGeneration clock1 g) = timedOut (config ga) (atGeneration clock2 g)"
  shows "topSolutionsOf (run ga cons ob clock1) = topSolutionsOf (run ga cons ob clock2)"
proof -
  have c: "config (ga\<lparr>selectedPlants := x\<rparr>) = config ga" for x by simp
  have "run_loop (ga\<lparr>selectedPlants := x\<rparr>) cons (atGeneration clock1) k g st
      = run_loop (ga\<lparr>selectedPlants := x\<rparr>) cons (atGeneration clock2) k g st" for x k g st
    by (rule run_loop_clock) (simp add: assms)
  then show ?thesis
    by (simp add: run_def topSolutionsOf_def ebind_def Let_def split: sum.splits)
qed

text \<open>
  Claim C8, amended: for every fixed seed that is an integer of at most \<open>2^53\<close> in
  absolute value, a newly constructed genetic algorithm draws every random value from the
  stream \<open>state = (state * 9301 + 49297) % 233280\<close> started at the seed, whatever
  \<open>Math.random\<close> returns. For a seed from 0 up to \<open>(2^53 - 49297) / 9301\<close>, for which
  the first product and sum are computed without rounding, the states follow
  \<open>(state * 9301 + 49297) mod 233280\<close> and every value lies in [0, 1). Two runs, each on
  a newly constructed genetic algorithm, with identical catalogue, matrix, constraints,
  objective and configuration produce identical \<open>topSolutions\<close> (or throw the same error)
  provided that the timeout check answers the same in both runs at every generation, as it
  does when no timeout is configured.
\<close>

theorem C8_seeded_runs_agree:
  assumes "seed cfg = Some s"
    and "\<bar>s\<bar> \<le> 2 ^ 53"
    and "\<forall>g. timedOut cfg (atGeneration clock1 g) = timedOut cfg (atGeneration clock2 g)"
  shows "rng (GeneticAlgorithm_new mathRandom1 ps fc cfg) = seededRandom s
       \<and> (0 \<le> s \<and> s * 9301 + 49297 \<le> 2 ^ 53 \<longrightarrow>
            (\<forall>n. lcg_state s (Suc n) = (lcg_state s n * 9301 + 49297) mod 233280
                  \<and> 0 \<le> seededRandom s n \<and> seededRandom s n < 1))
       \<and> topSolutionsOf (run (GeneticAlgorithm_new mathRandom1 ps fc cfg) cons ob clock1)
           = topSolutionsOf (run (GeneticAlgorithm_new mathRandom2 ps fc cfg) cons ob clock2)"
proof (intro conjI impI allI)
  show "rng (GeneticAlgorithm_new mathRandom1 ps fc cfg) = seededRandom s"
    using assms(1) by (simp add: GeneticAlgorithm_new_def)
next
  fix n assume "0 \<le> s \<and> s * 9301 + 49297 \<le> 2 ^ 53"
  then have b: "0 \<le> s" "s * 9301 + 49297 \<le> 2 ^ 53" by simp_all
  show "lcg_state s (Suc n) = (lcg_state s n * 9301 + 49297) mod 233280"
    by (rule lcg_range(3) [OF b])
  show "0 \<le> seededRandom s n" by (rule seeded_range(1) [OF b])
  show "seededRandom s n < 1" by (rule seeded_range(2) [OF b])
next
  have e: "GeneticAlgorithm_new mathRandom1 ps fc cfg = GeneticAlgorithm_new mathRandom2 ps fc cfg"
    using assms(1) by (simp add: GeneticAlgorithm_new_def)
  have "config (GeneticAlgorithm_new mathRandom2 ps fc cfg) = cfg"
    by (simp add: GeneticAlgorithm_new_def)
  then show "topSolutionsOf (run (GeneticAlgorithm_new mathRandom1 ps fc cfg) cons ob clock1)
           = topSolutionsOf (run (GeneticAlgorithm_new mathRandom2 ps fc cfg) cons ob clock2)"
    unfolding e using assms(3) by (intro run_clock) simp
qed

theorem C8_seeded_runs_agree_witness:
  "seed (exampleGAConfig\<lparr>timeout := None\<rparr>) = Some 42
   \<and> \<bar>42 :: int\<bar> \<le> 2 ^ 53
   \<and> (\<forall>g. timedOut (exampleGAConfig\<lparr>timeout := None\<rparr>) (atGeneration clockFast g)
          = timedOut (exampleGAConfig\<lparr>timeout := None\<rparr>) (atGeneration clockSlow g))
   \<and> (0::int) \<le> 42 \<and> (42 :: int) * 9301 + 49297 \<le> 2 ^ 53
   \<and> lcg_state 42 (Suc 0) = (lcg_state 42 0 * 9301 + 49297) mod 233280
   \<and> seededRandom 42 0 < 1
   \<and> topSolutionsOf (run (GeneticAlgorithm_new (\<lambda>n. 0) [tomate] vegConfig
                            (exampleGAConfig\<lparr>timeout := None\<rparr>)) consX Alimenticio clockFast)
       = topSolutionsOf (run (GeneticAlgorithm_new (\<lambda>n. 1 / 2) [tomate] vegConfig
                            (exampleGAConfig\<lparr>timeout := None\<rparr>)) consX Alimenticio clockSlow)"
proof -
  have s: "seed (exampleGAConfig\<lparr>timeout := None\<rparr>) = Some 42"
    by (simp add: exampleGAConfig_def)
  have r: "\<bar>42 :: int\<bar> \<le> 2 ^ 53" "(0::int) \<le> 42" "(42 :: int) * 9301 + 49297 \<le> 2 ^ 53"
    by simp_all
  have t: "\<forall>g. timedOut (exampleGAConfig\<lparr>timeout := None\<rparr>) (atGeneration clockFast g)
          = timedOut (exampleGAConfig\<lparr>timeout := None\<rparr>) (atGeneration clockSlow g)"
    by (simp add: timedOut_def)
  have "lcg_state 42 (Suc 0) = (lcg_state 42 0 * 9301 + 49297) mod 233280
      \<and> seededRandom 42 0 < 1
      \<and> topSolutionsOf (run (GeneticAlgorithm_new (\<lambda>n. 0) [tomate] vegConfig
                            (exampleGAConfig\<lparr>timeout := None\<rparr>)) consX Alimenticio clockFast)
       = topSolutionsOf (run (GeneticAlgorithm_new (\<lambda>n. 1 / 2) [tomate] vegConfig
                            (exampleGAConfig\<lparr>timeout := None\<rparr>)) consX Alimenticio clockSlow)"
    using C8_seeded_runs_agree [OF s r(1) t, of "\<lambda>n. 0" "[tomate]" vegConfig consX Alimenticio
        "\<lambda>n. 1 / 2"] r
    by blast
  then show ?thesis using s r t by blast
qed



subsection \<open>Best fitness across generations\<close>

lemma generationStep_population:
  assumes "generationStep ga cons g st = Inr st'"
  shows "\<exists>offspring. population st' = elitistReplacement ga (population st) offspring"
  using assms
  by (auto simp: generationStep_def ebind_def Let_def split: sum.splits)

lemma elitistReplacement_Max:
  assumes "parents \<noteq> []" "populationSize (config ga) \<ge> 1"
  shows "elitistReplacement ga parents offspring \<noteq> []"
    and "Max (ind_fitness ` set parents)
           \<le> Max (ind_fitness ` set (elitistReplacement ga parents offspring))"
proof -
  have ne: "parents @ offspring \<noteq> []" using assms(1) by simp
  have e: "maxFitness (elitistReplacement ga parents offspring) = Some (Max (ind_fitness ` set (parents @ offspring)))"
    using elitistReplacement_best [OF assms] maxFitness_Max [OF ne] by simp
  show n: "elitistReplacement ga parents offspring \<noteq> []"
    using e by (auto simp: maxFitness_def)
  have "Max (ind_fitness ` set parents) \<le> Max (ind_fitness ` set (parents @ offspring))"
    using assms(1) by (intro Max_mono) auto
  then show "Max (ind_fitness ` set parents)
           \<le> Max (ind_fitness ` set (elitistReplacement ga parents offspring))"
    using e maxFitness_Max [OF n] by simp
qed

lemma generationStep_Max:
  assumes "generationStep ga cons g st = Inr st'" "population st \<noteq> []" "populationSize (config ga) \<ge> 1"
  shows "population st' \<noteq> []"
    and "Max (ind_fitness ` set (population st)) \<le> Max (ind_fitness ` set (population st'))"
proof -
  obtain offspring where o: "population st' = elitistReplacement ga (population st) offspring"
    using generationStep_population [OF assms(1)] by blast
  show "population st' \<noteq> []"
    unfolding o by (rule elitistReplacement_Max(1) [OF assms(2,3)])
  show "Max (ind_fitness ` set (population st)) \<le> Max (ind_fitness ` set (population st'))"
    unfolding o by (rule elitistReplacement_Max(2) [OF assms(2,3)])
qed

lemma run_loop_Max:
  assumes "run_loop ga cons elapsed k g st = Inr (fin, reason)" "population st \<noteq> []"
    "populationSize (config ga) \<ge> 1"
  shows "population fin \<noteq> []
       \<and> Max (ind_fitness ` set (population st)) \<le> Max (ind_fitness ` set (population fin))"
  using assms(1,2)
proof (induction k arbitrary: g st)
  case 0
  then show ?case by simp
next
  case (Suc k)
  show ?case
  proof (cases "timedOut (config ga) (elapsed g)")
    case True
    then show ?thesis using Suc.prems by simp
  next
    case False
    then obtain st' where s: "generationStep ga cons g st = Inr st'"
      using Suc.prems(1) by (auto simp: ebind_def split: sum.splits)
    note m = generationStep_Max [OF s Suc.prems(2) assms(3)]
    from Suc.prems(1) False s
    have "fin = st' \<or> run_loop ga cons elapsed k (Suc g) st' = Inr (fin, reason)"
      by (auto simp: ebind_def split: if_splits)
    then show ?thesis
    proof
      assume "fin = st'"
      then show ?thesis using m by simp
    next
      assume "run_loop ga cons elapsed k (Suc g) st' = Inr (fin, reason)"
      from Suc.IH [OF this m(1)] m(2) show ?thesis by simp
    qed
  qed
qed

text \<open>
  Claim C10: within one run the maximum fitness of the population never decreases from one
  generation to the next. For a non-empty population and a population size of at least 1:
  after one generation (\<open>generationStep\<close>) and after any number of generations of the loop
  (\<open>run_loop\<close>, whatever the stopping reason) the best fitness is at least what it was,
  because the best fitness after \<open>elitistReplacement\<close> is the best fitness of parents and
  offspring together, whatever the offspring are.
\<close>

theorem C10_best_fitness_never_decreases:
  assumes "population st \<noteq> []" and "populationSize (config ga) \<ge> 1"
  shows "(generationStep ga cons g st = Inr st' \<longrightarrow>
            (\<exists>a b. maxFitness (population st) = Some a \<and> maxFitness (population st') = Some b
                   \<and> a \<le> b))
       \<and> (run_loop ga cons elapsed k g st = Inr (fin, reason) \<longrightarrow>
            (\<exists>a b. maxFitness (population st) = Some a \<and> maxFitness (population fin) = Some b
                   \<and> a \<le> b))
       \<and> (\<exists>a b. maxFitness (population st) = Some a
              \<and> maxFitness (elitistReplacement ga (population st) offspring) = Some b
              \<and> maxFitness (population st @ offspring) = Some b \<and> a \<le> b)"
proof (intro conjI impI)
  assume "generationStep ga cons g st = Inr st'"
  from generationStep_Max [OF this assms]
  show "\<exists>a b. maxFitness (population st) = Some a \<and> maxFitness (population st') = Some b \<and> a \<le> b"
    using maxFitness_Max [OF assms(1)] maxFitness_Max [of "population st'"] by simp
next
  assume "run_loop ga cons elapsed k g st = Inr (fin, reason)"
  from run_loop_Max [OF this assms]
  show "\<exists>a b. maxFitness (population st) = Some a \<and> maxFitness (population fin) = Some b \<and> a \<le> b"
    using maxFitness_Max [OF assms(1)] maxFitness_Max [of "population fin"] by simp
next
  have "Max (ind_fitness ` set (population st))
          \<le> Max (ind_fitness ` set (population st @ offspring))"
    using assms(1) by (intro Max_mono) auto
  then show "\<exists>a b. maxFitness (population st) = Some a
              \<and> maxFitness (elitistReplacement ga (population st) offspring) = Some b
              \<and> maxFitness (population st @ offspring) = Some b \<and> a \<le> b"
    using elitistReplacement_best [OF assms] maxFitness_Max [OF assms(1)]
      maxFitness_Max [of "population st @ offspring"] assms(1)
    by simp
qed

lemma stateW_facts:
  "population stateW = [emptyFour, emptyFour]" "evalEmpty emptyFour"
  "generationsWithoutImprovement stateW = 0"
  by (simp_all add: stateW_def evalEmpty_def emptyShape_def emptyFour_def)

theorem C10_best_fitness_never_decreases_witness:
  "population stateW \<noteq> [] \<and> populationSize (config gaX) \<ge> 1
   \<and> (\<exists>st' a b. generationStep gaX consX 0 stateW = Inr st'
          \<and> maxFitness (population stateW) = Some a \<and> maxFitness (population st') = Some b \<and> a \<le> b)
   \<and> (\<exists>fin a b. run_loop gaX consX (atGeneration clockFast) (Suc 0) 0 stateW = Inr (fin, MaxGenerations)
          \<and> maxFitness (population stateW) = Some a \<and> maxFitness (population fin) = Some b \<and> a \<le> b)
   \<and> (\<exists>a b. maxFitness (population stateW) = Some a
          \<and> maxFitness (elitistReplacement gaX (population stateW) [oneTomate]) = Some b
          \<and> maxFitness (population stateW @ [oneTomate]) = Some b \<and> a \<le> b)"
proof -
  have n: "population stateW \<noteq> []" by (simp add: stateW_facts)
  have p: "populationSize (config gaX) \<ge> 1"
    by (simp add: gaX_simps(3) exampleGAConfig_def)
  obtain st' where g: "generationStep gaX consX 0 stateW = Inr st'"
    using generation_X [OF stateW_facts(1,2,2), of 0] by blast
  obtain fin where r: "run_loop gaX consX (atGeneration clockFast) (Suc 0) 0 stateW = Inr (fin, MaxGenerations)"
    using run_loop_fast [OF stateW_facts(1,2,2,3)] by blast
  note t = C10_best_fitness_never_decreases [OF n p, of consX 0 st' "atGeneration clockFast" "Suc 0"
      fin MaxGenerations "[oneTomate]"]
  show ?thesis
    using n p g r t by blast
qed


end
